theory Spec2Isabelle
  imports Main "HOL-Library.Word"
begin

unbundle bit_operations_syntax

section \<open>Values, errors and collaborators\<close>

text \<open>
  A JavaScript string is a sequence of UTF-16 code units, so that \<open>length\<close> is the
  source's \<open>.length\<close>, \<open>!\<close> is \<open>charCodeAt\<close>, and every code unit (the null
  character, a surrogate half) is a legal element. \<open>js\<close> turns an ASCII literal of the
  source into such a string.
\<close>

type_synonym jsstring = "16 word list"

definition js :: "string \<Rightarrow> jsstring" where
  "js s = map (\<lambda>c. of_nat (of_char c)) s"

text \<open>
  A thrown value: \<open>Error msg\<close> is \<open>new Error(msg)\<close> of the source; \<open>Rejected\<close> is
  whatever a native collaborator (keychain, AES module, SQLite, \<open>btoa\<close>) rejects or throws
  with, including the TypeError of calling a function that is not there.
\<close>

datatype error = Error string | Rejected

text \<open>
  \<open>try { body } catch (error) { throw new Error(msg) }\<close>: every failure of the body leaves
  as \<open>Error msg\<close>, the state reached so far is kept.
\<close>

definition rethrow :: "string \<Rightarrow> (error + 'a) \<times> 's \<Rightarrow> (error + 'a) \<times> 's" where
  "rethrow msg r = (case r of (Inl e, s) \<Rightarrow> (Inl (Error msg), s) | (Inr x, s) \<Rightarrow> (Inr x, s))"

text \<open>
  The native AES module (\<open>react-native-aes-crypto\<close>, \<open>NativeModules.RNAes\<close>) is not code of
  the repository: it is a parameter. Each function may be missing (\<open>None\<close>: the
  \<open>typeof ... === 'function'\<close> test of the second revision fails) and, when present, may
  reject (\<open>None\<close> as result). \<open>aes_randomKey\<close> gets the byte count and the number of the
  random draw; \<open>aes_pbkdf2\<close> gets password, salt, cost and length (the algorithm is always
  \<open>'sha512'\<close>); \<open>aes_encrypt\<close> and \<open>aes_decrypt\<close> get text, key and iv (the algorithm is
  always \<open>'aes-256-cbc'\<close>).
\<close>

record RNAes =
  aes_randomKey :: "(nat \<Rightarrow> nat \<Rightarrow> jsstring option) option"
  aes_pbkdf2 :: "(jsstring \<Rightarrow> jsstring \<Rightarrow> nat \<Rightarrow> nat \<Rightarrow> jsstring option) option"
  aes_encrypt :: "(jsstring \<Rightarrow> jsstring \<Rightarrow> jsstring \<Rightarrow> jsstring option) option"
  aes_decrypt :: "(jsstring \<Rightarrow> jsstring \<Rightarrow> jsstring \<Rightarrow> jsstring option) option"

text \<open>
  The platform: the AES module (\<open>None\<close> when \<open>NativeModules.RNAes\<close> is undefined),
  \<open>Math_random i\<close> for the value of \<open>Math.floor(Math.random() * 256)\<close> at the \<open>i\<close>-th
  draw, and the global string functions used by the fallback cipher (\<open>None\<close>: throws).
\<close>

record platform =
  Aes :: "RNAes option"
  Math_random :: "nat \<Rightarrow> 8 word"
  btoa :: "jsstring \<Rightarrow> jsstring option"
  atob :: "jsstring \<Rightarrow> jsstring option"
  encodeURIComponent :: "jsstring \<Rightarrow> jsstring option"
  decodeURIComponent :: "jsstring \<Rightarrow> jsstring option"

text \<open>
  The secure storage as the encryption service sees it: the keychain entry of
  \<open>KEYCHAIN_SERVICE\<close> (\<open>credentials\<close>, the stored password), the AsyncStorage item
  \<open>SALT_KEY\<close>, whether each store serves requests or rejects them, and the number of
  random values drawn so far.
\<close>

record secure_storage =
  keychain_up :: bool
  credentials :: "jsstring option"
  asyncstorage_up :: bool
  stored_salt :: "jsstring option"
  draws :: nat

definition Keychain_getGenericPassword :: "secure_storage \<Rightarrow> jsstring option option" where
  "Keychain_getGenericPassword s = (if keychain_up s then Some (credentials s) else None)"

definition Keychain_setGenericPassword :: "jsstring \<Rightarrow> secure_storage \<Rightarrow> secure_storage option" where
  "Keychain_setGenericPassword password s =
     (if keychain_up s then Some (s\<lparr>credentials := Some password\<rparr>) else None)"

definition Keychain_resetGenericPassword :: "secure_storage \<Rightarrow> secure_storage option" where
  "Keychain_resetGenericPassword s =
     (if keychain_up s then Some (s\<lparr>credentials := None\<rparr>) else None)"

definition AsyncStorage_getItem :: "secure_storage \<Rightarrow> jsstring option option" where
  "AsyncStorage_getItem s = (if asyncstorage_up s then Some (stored_salt s) else None)"

definition AsyncStorage_setItem :: "jsstring \<Rightarrow> secure_storage \<Rightarrow> secure_storage option" where
  "AsyncStorage_setItem v s =
     (if asyncstorage_up s then Some (s\<lparr>stored_salt := Some v\<rparr>) else None)"

definition AsyncStorage_removeItem :: "secure_storage \<Rightarrow> secure_storage option" where
  "AsyncStorage_removeItem s =
     (if asyncstorage_up s then Some (s\<lparr>stored_salt := None\<rparr>) else None)"

text \<open>Calls into the AES module; a missing module or function throws, like a rejection.\<close>

definition Aes_randomKey :: "platform \<Rightarrow> nat \<Rightarrow> secure_storage \<Rightarrow> jsstring option \<times> secure_storage" where
  "Aes_randomKey p n s =
     ((case Aes p of None \<Rightarrow> None
       | Some a \<Rightarrow> (case aes_randomKey a of None \<Rightarrow> None | Some f \<Rightarrow> f n (draws s))),
      s\<lparr>draws := Suc (draws s)\<rparr>)"

definition Aes_pbkdf2 :: "platform \<Rightarrow> jsstring \<Rightarrow> jsstring \<Rightarrow> nat \<Rightarrow> nat \<Rightarrow> jsstring option" where
  "Aes_pbkdf2 p password salt cost len =
     (case Aes p of None \<Rightarrow> None
      | Some a \<Rightarrow> (case aes_pbkdf2 a of None \<Rightarrow> None | Some f \<Rightarrow> f password salt cost len))"

definition Aes_encrypt :: "platform \<Rightarrow> jsstring \<Rightarrow> jsstring \<Rightarrow> jsstring \<Rightarrow> jsstring option" where
  "Aes_encrypt p text key iv =
     (case Aes p of None \<Rightarrow> None
      | Some a \<Rightarrow> (case aes_encrypt a of None \<Rightarrow> None | Some f \<Rightarrow> f text key iv))"

definition Aes_decrypt :: "platform \<Rightarrow> jsstring \<Rightarrow> jsstring \<Rightarrow> jsstring \<Rightarrow> jsstring option" where
  "Aes_decrypt p text key iv =
     (case Aes p of None \<Rightarrow> None
      | Some a \<Rightarrow> (case aes_decrypt a of None \<Rightarrow> None | Some f \<Rightarrow> f text key iv))"

text \<open>\<open>Aes && typeof Aes.f === 'function'\<close> of the second revision.\<close>

definition has_pbkdf2 :: "platform \<Rightarrow> bool" where
  "has_pbkdf2 p = (case Aes p of None \<Rightarrow> False | Some a \<Rightarrow> aes_pbkdf2 a \<noteq> None)"

definition has_encrypt :: "platform \<Rightarrow> bool" where
  "has_encrypt p = (case Aes p of None \<Rightarrow> False | Some a \<Rightarrow> aes_encrypt a \<noteq> None)"

definition has_decrypt :: "platform \<Rightarrow> bool" where
  "has_decrypt p = (case Aes p of None \<Rightarrow> False | Some a \<Rightarrow> aes_decrypt a \<noteq> None)"

section \<open>EncryptionService, first revision\<close>

definition SALT :: jsstring where
  "SALT = js ''SecureNotesAppSalt''"

definition getEncryptionKey_r1 :: "platform \<Rightarrow> secure_storage \<Rightarrow> (error + jsstring) \<times> secure_storage" where
  "getEncryptionKey_r1 p s =
     rethrow ''Failed to secure the encryption key''
       (case Keychain_getGenericPassword s of
          None \<Rightarrow> (Inl Rejected, s)
        | Some (Some password) \<Rightarrow> (Inr password, s)
        | Some None \<Rightarrow>
            (case Aes_randomKey p (256 div 8) s of
               (None, s1) \<Rightarrow> (Inl Rejected, s1)
             | (Some randomBytes, s1) \<Rightarrow>
                 (case Aes_pbkdf2 p randomBytes SALT 10000 (256 div 8) of
                    None \<Rightarrow> (Inl Rejected, s1)
                  | Some key \<Rightarrow>
                      (case Keychain_setGenericPassword key s1 of
                         None \<Rightarrow> (Inl Rejected, s1)
                       | Some s2 \<Rightarrow> (Inr key, s2)))))"

definition encrypt_r1 :: "platform \<Rightarrow> jsstring \<Rightarrow> secure_storage \<Rightarrow> (error + jsstring \<times> jsstring) \<times> secure_storage" where
  "encrypt_r1 p data s =
     rethrow ''Failed to encrypt data''
       (case getEncryptionKey_r1 p s of
          (Inl e, s1) \<Rightarrow> (Inl e, s1)
        | (Inr key, s1) \<Rightarrow>
            (case Aes_randomKey p 16 s1 of
               (None, s2) \<Rightarrow> (Inl Rejected, s2)
             | (Some iv, s2) \<Rightarrow>
                 (case Aes_encrypt p data key iv of
                    None \<Rightarrow> (Inl Rejected, s2)
                  | Some encrypted \<Rightarrow> (Inr (encrypted, iv), s2))))"

definition decrypt_r1 :: "platform \<Rightarrow> jsstring \<Rightarrow> jsstring \<Rightarrow> secure_storage \<Rightarrow> (error + jsstring) \<times> secure_storage" where
  "decrypt_r1 p encrypted iv s =
     rethrow ''Failed to decrypt data''
       (case getEncryptionKey_r1 p s of
          (Inl e, s1) \<Rightarrow> (Inl e, s1)
        | (Inr key, s1) \<Rightarrow>
            (case Aes_decrypt p encrypted key iv of
               None \<Rightarrow> (Inl Rejected, s1)
             | Some decrypted \<Rightarrow> (Inr decrypted, s1)))"

section \<open>EncryptionService, second revision\<close>

text \<open>
  \<open>Math.floor(Math.random() * 256).toString(16).padStart(2, '0')\<close>: the two lower-case
  hexadecimal digits of a byte.
\<close>

definition hexdigit :: "nat \<Rightarrow> 16 word" where
  "hexdigit d = (if d < 10 then of_nat (48 + d) else of_nat (87 + d))"

definition hex2 :: "8 word \<Rightarrow> jsstring" where
  "hex2 b = [hexdigit (unat b div 16), hexdigit (unat b mod 16)]"

text \<open>
  The loop \<open>for (let i = 0; i < n; i++) randomBytes.push(...)\<close> followed by
  \<open>randomBytes.join('')\<close>: \<open>n\<close> draws, two digits each.
\<close>

definition random_hex :: "platform \<Rightarrow> nat \<Rightarrow> secure_storage \<Rightarrow> jsstring \<times> secure_storage" where
  "random_hex p n s =
     (concat (map (\<lambda>i. hex2 (Math_random p (draws s + i))) [0..<n]),
      s\<lparr>draws := draws s + n\<rparr>)"

definition getSalt :: "platform \<Rightarrow> secure_storage \<Rightarrow> (error + jsstring) \<times> secure_storage" where
  "getSalt p s =
     rethrow ''Failed to secure salt for encryption''
       (case AsyncStorage_getItem s of
          None \<Rightarrow> (Inl Rejected, s)
        | Some storedSalt \<Rightarrow>
            (if storedSalt \<noteq> None \<and> storedSalt \<noteq> Some [] then (Inr (the storedSalt), s)
             else
               (case random_hex p 16 s of
                  (salt, s1) \<Rightarrow>
                    (case AsyncStorage_setItem salt s1 of
                       None \<Rightarrow> (Inl Rejected, s1)
                     | Some s2 \<Rightarrow> (Inr salt, s2)))))"

definition getEncryptionKey_r2 :: "platform \<Rightarrow> secure_storage \<Rightarrow> (error + jsstring) \<times> secure_storage" where
  "getEncryptionKey_r2 p s =
     rethrow ''Failed to secure the encryption key''
       (case Keychain_getGenericPassword s of
          None \<Rightarrow> (Inl Rejected, s)
        | Some (Some password) \<Rightarrow> (Inr password, s)
        | Some None \<Rightarrow>
            (case getSalt p s of
               (Inl e, s1) \<Rightarrow> (Inl e, s1)
             | (Inr salt, s1) \<Rightarrow>
                 (case random_hex p 32 s1 of
                    (randomKey, s2) \<Rightarrow>
                      (case (if has_pbkdf2 p then Aes_pbkdf2 p randomKey salt 10000 32
                             else Some randomKey) of
                         None \<Rightarrow> (Inl Rejected, s2)
                       | Some key \<Rightarrow>
                           (case Keychain_setGenericPassword key s2 of
                              None \<Rightarrow> (Inl Rejected, s2)
                            | Some s3 \<Rightarrow> (Inr key, s3))))))"

text \<open>
  The XOR loop shared by \<open>simpleFallbackEncrypt\<close> and \<open>simpleFallbackDecrypt\<close>:
  \<open>data.charCodeAt(i) ^ key.charCodeAt(i % key.length)\<close> for every index, with the
  fixed key of the source.
\<close>

definition DevKey :: jsstring where
  "DevKey = js ''SecureNotesDevKey''"

definition xor_DevKey :: "jsstring \<Rightarrow> jsstring" where
  "xor_DevKey data =
     map (\<lambda>i. (data ! i) XOR (DevKey ! (i mod length DevKey))) [0..<length data]"

definition simpleFallbackEncrypt :: "platform \<Rightarrow> jsstring \<Rightarrow> jsstring option" where
  "simpleFallbackEncrypt p data =
     (let result = xor_DevKey data in
      case btoa p result of
        Some b \<Rightarrow> Some b
      | None \<Rightarrow>
          (case encodeURIComponent p result of
             None \<Rightarrow> None
           | Some u \<Rightarrow> btoa p u))"

text \<open>
  \<open>simpleFallbackDecrypt\<close> never throws: when \<open>atob\<close> throws, the inner handler calls
  \<open>atob\<close> on the same argument again, and the outer handler returns the input as it is.
\<close>

definition simpleFallbackDecrypt :: "platform \<Rightarrow> jsstring \<Rightarrow> jsstring" where
  "simpleFallbackDecrypt p encrypted =
     (case (case atob p encrypted of
              Some d \<Rightarrow> Some d
            | None \<Rightarrow>
                (case atob p encrypted of
                   None \<Rightarrow> None
                 | Some a \<Rightarrow> decodeURIComponent p a)) of
        None \<Rightarrow> encrypted
      | Some data \<Rightarrow> xor_DevKey data)"

definition encrypt_r2 :: "platform \<Rightarrow> jsstring \<Rightarrow> secure_storage \<Rightarrow> (error + jsstring \<times> jsstring) \<times> secure_storage" where
  "encrypt_r2 p data s =
     rethrow ''Failed to encrypt data''
       (case getEncryptionKey_r2 p s of
          (Inl e, s1) \<Rightarrow> (Inl e, s1)
        | (Inr key, s1) \<Rightarrow>
            (case random_hex p 16 s1 of
               (iv, s2) \<Rightarrow>
                 (case (if has_encrypt p then Aes_encrypt p data key iv
                        else simpleFallbackEncrypt p data) of
                    None \<Rightarrow> (Inl Rejected, s2)
                  | Some encrypted \<Rightarrow> (Inr (encrypted, iv), s2))))"

definition decrypt_r2 :: "platform \<Rightarrow> jsstring \<Rightarrow> jsstring \<Rightarrow> secure_storage \<Rightarrow> (error + jsstring) \<times> secure_storage" where
  "decrypt_r2 p encrypted iv s =
     rethrow ''Failed to decrypt data''
       (case getEncryptionKey_r2 p s of
          (Inl e, s1) \<Rightarrow> (Inl e, s1)
        | (Inr key, s1) \<Rightarrow>
            (if iv = [] \<or> length iv \<noteq> 16 * 2 then (Inl (Error ''Invalid initialization vector''), s1)
             else
               (case (if has_decrypt p then Aes_decrypt p encrypted key iv
                      else Some (simpleFallbackDecrypt p encrypted)) of
                  None \<Rightarrow> (Inl Rejected, s1)
                | Some decrypted \<Rightarrow> (Inr decrypted, s1))))"

definition resetEncryptionKey_r2 :: "secure_storage \<Rightarrow> (error + unit) \<times> secure_storage" where
  "resetEncryptionKey_r2 s =
     rethrow ''Failed to reset encryption keys''
       (case Keychain_resetGenericPassword s of
          None \<Rightarrow> (Inl Rejected, s)
        | Some s1 \<Rightarrow>
            (case AsyncStorage_removeItem s1 of
               None \<Rightarrow> (Inl Rejected, s1)
             | Some s2 \<Rightarrow> (Inr (), s2)))"

section \<open>EncryptionService, third revision\<close>

definition getEncryptionKey_r3 :: "platform \<Rightarrow> secure_storage \<Rightarrow> (error + jsstring) \<times> secure_storage" where
  "getEncryptionKey_r3 p s =
     rethrow ''Failed to secure the encryption key''
       (case Keychain_getGenericPassword s of
          None \<Rightarrow> (Inl Rejected, s)
        | Some (Some password) \<Rightarrow> (Inr password, s)
        | Some None \<Rightarrow>
            (case Aes_randomKey p 32 s of
               (None, s1) \<Rightarrow> (Inl Rejected, s1)
             | (Some randomBytes, s1) \<Rightarrow>
                 (case Aes_pbkdf2 p randomBytes SALT 10000 32 of
                    None \<Rightarrow> (Inl Rejected, s1)
                  | Some key \<Rightarrow>
                      (case Keychain_setGenericPassword key s1 of
                         None \<Rightarrow> (Inl Rejected, s1)
                       | Some s2 \<Rightarrow> (Inr key, s2)))))"

definition encrypt_r3 :: "platform \<Rightarrow> jsstring \<Rightarrow> secure_storage \<Rightarrow> (error + jsstring \<times> jsstring) \<times> secure_storage" where
  "encrypt_r3 p data s =
     rethrow ''Failed to encrypt data''
       (case getEncryptionKey_r3 p s of
          (Inl e, s1) \<Rightarrow> (Inl e, s1)
        | (Inr key, s1) \<Rightarrow>
            (case Aes_randomKey p 16 s1 of
               (None, s2) \<Rightarrow> (Inl Rejected, s2)
             | (Some iv, s2) \<Rightarrow>
                 (case Aes_encrypt p data key iv of
                    None \<Rightarrow> (Inl Rejected, s2)
                  | Some encrypted \<Rightarrow> (Inr (encrypted, iv), s2))))"

definition decrypt_r3 :: "platform \<Rightarrow> jsstring \<Rightarrow> jsstring \<Rightarrow> secure_storage \<Rightarrow> (error + jsstring) \<times> secure_storage" where
  "decrypt_r3 p encrypted iv s =
     rethrow ''Failed to decrypt data''
       (case getEncryptionKey_r3 p s of
          (Inl e, s1) \<Rightarrow> (Inl e, s1)
        | (Inr key, s1) \<Rightarrow>
            (if iv = [] \<or> length iv < 16 then (Inl (Error ''Invalid IV for decryption''), s1)
             else
               (case Aes_decrypt p encrypted key iv of
                  None \<Rightarrow> (Inl Rejected, s1)
                | Some decrypted \<Rightarrow> (Inr decrypted, s1))))"

definition resetEncryptionKey_r3 :: "secure_storage \<Rightarrow> (error + unit) \<times> secure_storage" where
  "resetEncryptionKey_r3 s =
     rethrow ''Failed to reset encryption key''
       (case Keychain_resetGenericPassword s of
          None \<Rightarrow> (Inl Rejected, s)
        | Some s1 \<Rightarrow> (Inr (), s1))"

text \<open>
  The three revisions of the service export the same interface; a caller is linked against
  one of them.
\<close>

datatype revision = Rev1 | Rev2 | Rev3

fun encrypt :: "revision \<Rightarrow> platform \<Rightarrow> jsstring \<Rightarrow> secure_storage \<Rightarrow> (error + jsstring \<times> jsstring) \<times> secure_storage" where
  "encrypt Rev1 = encrypt_r1"
| "encrypt Rev2 = encrypt_r2"
| "encrypt Rev3 = encrypt_r3"

fun decrypt :: "revision \<Rightarrow> platform \<Rightarrow> jsstring \<Rightarrow> jsstring \<Rightarrow> secure_storage \<Rightarrow> (error + jsstring) \<times> secure_storage" where
  "decrypt Rev1 = decrypt_r1"
| "decrypt Rev2 = decrypt_r2"
| "decrypt Rev3 = decrypt_r3"

fun getEncryptionKey :: "revision \<Rightarrow> platform \<Rightarrow> secure_storage \<Rightarrow> (error + jsstring) \<times> secure_storage" where
  "getEncryptionKey Rev1 = getEncryptionKey_r1"
| "getEncryptionKey Rev2 = getEncryptionKey_r2"
| "getEncryptionKey Rev3 = getEncryptionKey_r3"

section \<open>DatabaseService\<close>

text \<open>
  A \<open>number\<close> that is an id or a timestamp is an integer here. An optional field
  (\<open>id?\<close>, \<open>createdAt?\<close>) is an \<open>option\<close>; in a condition, an optional number is truthy
  when it is present and not \<open>0\<close>.
\<close>

record Note =
  note_id :: "int option"
  title :: jsstring
  content :: jsstring
  createdAt :: "int option"
  updatedAt :: "int option"

text \<open>A row of the table \<open>notes\<close>; the column \<open>id\<close> is the primary key.\<close>

record EncryptedNote =
  row_id :: int
  titleEncrypted :: jsstring
  titleIv :: jsstring
  contentEncrypted :: jsstring
  contentIv :: jsstring
  row_createdAt :: int
  row_updatedAt :: int

text \<open>
  The SQLite collaborator: whether it serves requests (\<open>sqlite_up\<close>), whether the
  service holds an open connection (\<open>this.database\<close> is not null), the rows of \<open>notes\<close>
  in insertion order, and the largest row id that \<open>AUTOINCREMENT\<close> has handed out. A
  table that does not exist yet is the empty list: \<open>CREATE TABLE IF NOT EXISTS\<close> makes it
  exist before any other statement reaches it. \<open>resetDatabase\<close> is not modelled.
\<close>

record database =
  sqlite_up :: bool
  connection :: bool
  notes_table :: "EncryptedNote list"
  sqlite_sequence :: int

definition truthy :: "int option \<Rightarrow> bool" where
  "truthy n = (case n of None \<Rightarrow> False | Some i \<Rightarrow> i \<noteq> 0)"

definition createTables :: "database \<Rightarrow> (error + unit) \<times> database" where
  "createTables db =
     (if \<not> connection db then (Inl (Error ''Database not initialized''), db)
      else if sqlite_up db then (Inr (), db)
      else (Inl Rejected, db))"

definition init :: "database \<Rightarrow> (error + unit) \<times> database" where
  "init db =
     rethrow ''Failed to initialize database''
       (if sqlite_up db then createTables (db\<lparr>connection := True\<rparr>)
        else (Inl Rejected, db))"

definition close :: "database \<Rightarrow> (error + unit) \<times> database" where
  "close db =
     (if connection db then
        (if sqlite_up db then (Inr (), db\<lparr>connection := False\<rparr>) else (Inl Rejected, db))
      else (Inr (), db))"

text \<open>\<open>if (!this.database) { await this.init(); }\<close> at the head of every operation.\<close>

definition ensure_init :: "database \<Rightarrow> (error + unit) \<times> database" where
  "ensure_init db = (if \<not> connection db then init db else (Inr (), db))"

text \<open>
  The five statements. \<open>INSERT\<close> assigns the row id that \<open>AUTOINCREMENT\<close> prescribes:
  one more than the largest of the ids in the table and the ids handed out before.
  \<open>ORDER BY updatedAt DESC\<close> keeps rows of equal \<open>updatedAt\<close> in table order.
\<close>

definition next_rowid :: "database \<Rightarrow> int" where
  "next_rowid db = fold max (map row_id (notes_table db)) (sqlite_sequence db) + 1"

definition sql_update :: "jsstring \<Rightarrow> jsstring \<Rightarrow> jsstring \<Rightarrow> jsstring \<Rightarrow> int \<Rightarrow> int \<Rightarrow> database \<Rightarrow> database option" where
  "sql_update tE tIv cE cIv upd i db =
     (if sqlite_up db then
        Some (db\<lparr>notes_table :=
          map (\<lambda>r. if row_id r = i
                    then r\<lparr>titleEncrypted := tE, titleIv := tIv, contentEncrypted := cE,
                           contentIv := cIv, row_updatedAt := upd\<rparr>
                    else r) (notes_table db)\<rparr>)
      else None)"

definition sql_insert :: "jsstring \<Rightarrow> jsstring \<Rightarrow> jsstring \<Rightarrow> jsstring \<Rightarrow> int \<Rightarrow> int \<Rightarrow> database \<Rightarrow> (int \<times> database) option" where
  "sql_insert tE tIv cE cIv cre upd db =
     (if sqlite_up db then
        (let insertId = next_rowid db in
         Some (insertId,
               db\<lparr>notes_table := notes_table db @
                      [\<lparr>row_id = insertId, titleEncrypted = tE, titleIv = tIv,
                        contentEncrypted = cE, contentIv = cIv,
                        row_createdAt = cre, row_updatedAt = upd\<rparr>],
                  sqlite_sequence := insertId\<rparr>))
      else None)"

definition sql_select_by_id :: "int \<Rightarrow> database \<Rightarrow> EncryptedNote list option" where
  "sql_select_by_id i db =
     (if sqlite_up db then Some (filter (\<lambda>r. row_id r = i) (notes_table db)) else None)"

definition sql_select_all :: "database \<Rightarrow> EncryptedNote list option" where
  "sql_select_all db =
     (if sqlite_up db then Some (sort_key (\<lambda>r. - row_updatedAt r) (notes_table db)) else None)"

definition sql_delete :: "int \<Rightarrow> database \<Rightarrow> database option" where
  "sql_delete i db =
     (if sqlite_up db then Some (db\<lparr>notes_table := filter (\<lambda>r. row_id r \<noteq> i) (notes_table db)\<rparr>)
      else None)"

text \<open>
  The state of the application: the secure storage and the database. \<open>saveNote\<close> gets
  the value that \<open>Date.now()\<close> returns at the call.
\<close>

type_synonym world = "secure_storage \<times> database"

definition saveNote :: "revision \<Rightarrow> platform \<Rightarrow> int \<Rightarrow> Note \<Rightarrow> world \<Rightarrow> (error + int) \<times> world" where
  "saveNote rv p now note w =
     (case w of (s, db) \<Rightarrow>
      (case ensure_init db of
         (Inl e, db1) \<Rightarrow> (Inl e, (s, db1))
       | (Inr u, db1) \<Rightarrow>
           (let timestamp = now in
            case encrypt rv p (title note) s of
              (Inl e, s1) \<Rightarrow> (Inl e, (s1, db1))
            | (Inr (tE, tIv), s1) \<Rightarrow>
                (case encrypt rv p (content note) s1 of
                   (Inl e, s2) \<Rightarrow> (Inl e, (s2, db1))
                 | (Inr (cE, cIv), s2) \<Rightarrow>
                     (let cre = (if truthy (createdAt note) then the (createdAt note) else timestamp);
                          upd = timestamp in
                      if truthy (note_id note) then
                        (case sql_update tE tIv cE cIv upd (the (note_id note)) db1 of
                           None \<Rightarrow> (Inl Rejected, (s2, db1))
                         | Some db2 \<Rightarrow> (Inr (the (note_id note)), (s2, db2)))
                      else
                        (case sql_insert tE tIv cE cIv cre upd db1 of
                           None \<Rightarrow> (Inl Rejected, (s2, db1))
                         | Some (insertId, db2) \<Rightarrow> (Inr insertId, (s2, db2))))))))"

definition decryptNote :: "revision \<Rightarrow> platform \<Rightarrow> EncryptedNote \<Rightarrow> secure_storage \<Rightarrow> (error + Note) \<times> secure_storage" where
  "decryptNote rv p encryptedNote s =
     rethrow ''Failed to decrypt note data''
       (case decrypt rv p (titleEncrypted encryptedNote) (titleIv encryptedNote) s of
          (Inl e, s1) \<Rightarrow> (Inl e, s1)
        | (Inr t, s1) \<Rightarrow>
            (case decrypt rv p (contentEncrypted encryptedNote) (contentIv encryptedNote) s1 of
               (Inl e, s2) \<Rightarrow> (Inl e, s2)
             | (Inr c, s2) \<Rightarrow>
                 (Inr \<lparr>note_id = Some (row_id encryptedNote), title = t, content = c,
                       createdAt = Some (row_createdAt encryptedNote),
                       updatedAt = Some (row_updatedAt encryptedNote)\<rparr>, s2)))"

definition getNote :: "revision \<Rightarrow> platform \<Rightarrow> int \<Rightarrow> world \<Rightarrow> (error + Note option) \<times> world" where
  "getNote rv p i w =
     (case w of (s, db) \<Rightarrow>
      (case ensure_init db of
         (Inl e, db1) \<Rightarrow> (Inl e, (s, db1))
       | (Inr u, db1) \<Rightarrow>
           (case sql_select_by_id i db1 of
              None \<Rightarrow> (Inl Rejected, (s, db1))
            | Some [] \<Rightarrow> (Inr None, (s, db1))
            | Some (encryptedNote # rest) \<Rightarrow>
                (case decryptNote rv p encryptedNote s of
                   (Inl e, s1) \<Rightarrow> (Inl e, (s1, db1))
                 | (Inr note, s1) \<Rightarrow> (Inr (Some note), (s1, db1))))))"

text \<open>
  The loop of \<open>getAllNotes\<close> over the fetched rows: a row that decrypts is pushed, a
  row whose decryption throws is skipped.
\<close>

fun decrypt_rows :: "revision \<Rightarrow> platform \<Rightarrow> EncryptedNote list \<Rightarrow> Note list \<Rightarrow> secure_storage \<Rightarrow> Note list \<times> secure_storage" where
  "decrypt_rows rv p [] acc s = (acc, s)"
| "decrypt_rows rv p (encryptedNote # rest) acc s =
     (case decryptNote rv p encryptedNote s of
        (Inl e, s1) \<Rightarrow> decrypt_rows rv p rest acc s1
      | (Inr note, s1) \<Rightarrow> decrypt_rows rv p rest (acc @ [note]) s1)"

definition getAllNotes :: "revision \<Rightarrow> platform \<Rightarrow> world \<Rightarrow> (error + Note list) \<times> world" where
  "getAllNotes rv p w =
     (case w of (s, db) \<Rightarrow>
      (case ensure_init db of
         (Inl e, db1) \<Rightarrow> (Inl e, (s, db1))
       | (Inr u, db1) \<Rightarrow>
           (case sql_select_all db1 of
              None \<Rightarrow> (Inl Rejected, (s, db1))
            | Some results \<Rightarrow>
                (case decrypt_rows rv p results [] s of
                   (ns, s1) \<Rightarrow> (Inr ns, (s1, db1))))))"

definition deleteNote :: "int \<Rightarrow> world \<Rightarrow> (error + unit) \<times> world" where
  "deleteNote i w =
     (case w of (s, db) \<Rightarrow>
      (case ensure_init db of
         (Inl e, db1) \<Rightarrow> (Inl e, (s, db1))
       | (Inr u, db1) \<Rightarrow>
           (case sql_delete i db1 of
              None \<Rightarrow> (Inl Rejected, (s, db1))
            | Some db2 \<Rightarrow> (Inr (), (s, db2)))))"

section \<open>NotePresenter\<close>







section \<open>Contracts of the collaborators and a test platform\<close>

text \<open>
  What the claims about round trips ask of the native cipher: decrypting a ciphertext
  with the key and iv it was made with gives the plaintext back (\<open>cipher_inverts\<close>), and
  the module is installed and serves every request, \<open>randomKey n\<close> with \<open>n\<close> bytes in
  hexadecimal (\<open>aes_total\<close>).
\<close>

definition cipher_inverts :: "platform \<Rightarrow> bool" where
  "cipher_inverts p =
     (\<forall>t k iv c. Aes_encrypt p t k iv = Some c \<longrightarrow> Aes_decrypt p c k iv = Some t)"

definition aes_total :: "platform \<Rightarrow> bool" where
  "aes_total p =
     ((\<forall>n s. \<exists>x. fst (Aes_randomKey p n s) = Some x \<and> length x = 2 * n) \<and>
      (\<forall>pw salt c l. Aes_pbkdf2 p pw salt c l \<noteq> None) \<and>
      (\<forall>t k iv. Aes_encrypt p t k iv \<noteq> None))"

text \<open>
  A platform to run the model on. Its cipher writes key and iv in front of the text and
  refuses a ciphertext that does not start with them; its \<open>btoa\<close> is the standard
  base64 encoding of a string of code units below 256 and throws on any other string;
  \<open>atob\<close> and the URI functions throw.
\<close>

definition toy_encrypt :: "jsstring \<Rightarrow> jsstring \<Rightarrow> jsstring \<Rightarrow> jsstring option" where
  "toy_encrypt t k iv = Some (k @ iv @ t)"

definition toy_decrypt :: "jsstring \<Rightarrow> jsstring \<Rightarrow> jsstring \<Rightarrow> jsstring option" where
  "toy_decrypt c k iv =
     (if take (length k + length iv) c = k @ iv then Some (drop (length k + length iv) c)
      else None)"

definition toy_aes :: RNAes where
  "toy_aes =
     \<lparr>aes_randomKey = Some (\<lambda>n i. Some (replicate (2 * n) (hexdigit (i mod 16)))),
      aes_pbkdf2 = Some (\<lambda>pw salt cost len. Some (take len pw)),
      aes_encrypt = Some toy_encrypt,
      aes_decrypt = Some toy_decrypt\<rparr>"

definition base64_char :: "nat \<Rightarrow> 16 word" where
  "base64_char n =
     js ''ABCDEFGHIJKLMNOPQRSTUVWXYZabcdefghijklmnopqrstuvwxyz0123456789+/'' ! n"

fun base64_groups :: "nat list \<Rightarrow> jsstring" where
  "base64_groups [] = []"
| "base64_groups [a] =
     [base64_char (a div 4), base64_char ((a mod 4) * 16), 61, 61]"
| "base64_groups [a, b] =
     [base64_char (a div 4), base64_char ((a mod 4) * 16 + b div 16),
      base64_char ((b mod 16) * 4), 61]"
| "base64_groups (a # b # c # rest) =
     [base64_char (a div 4), base64_char ((a mod 4) * 16 + b div 16),
      base64_char ((b mod 16) * 4 + c div 64), base64_char (c mod 64)] @ base64_groups rest"

definition base64_btoa :: "jsstring \<Rightarrow> jsstring option" where
  "base64_btoa s =
     (if list_all (\<lambda>u. u \<le> 255) s then Some (base64_groups (map unat s)) else None)"

definition toy_platform :: platform where
  "toy_platform =
     \<lparr>Aes = Some toy_aes,
      Math_random = (\<lambda>i. of_nat i),
      btoa = base64_btoa,
      atob = (\<lambda>s. None),
      encodeURIComponent = (\<lambda>s. None),
      decodeURIComponent = (\<lambda>s. None)\<rparr>"

text \<open>The same platform without the native AES module.\<close>

definition bare_platform :: platform where
  "bare_platform = toy_platform\<lparr>Aes := None\<rparr>"

text \<open>A fresh installation: both stores serve requests and are empty.\<close>

definition fresh_storage :: secure_storage where
  "fresh_storage =
     \<lparr>keychain_up = True, credentials = None, asyncstorage_up = True,
      stored_salt = None, draws = 0\<rparr>"

text \<open>An installation whose keychain already holds a key.\<close>

definition keyed_storage :: secure_storage where
  "keyed_storage = fresh_storage\<lparr>credentials := Some (js ''k'')\<rparr>"

definition fresh_database :: database where
  "fresh_database =
     \<lparr>sqlite_up = True, connection = False, notes_table = [], sqlite_sequence = 0\<rparr>"

text \<open>
  The row that saving the note \<open>T\<close>, \<open>C\<close> at time 1000 leaves in the empty table of
  the test platform (third revision, keyed storage).
\<close>

definition saved_row :: EncryptedNote where
  "saved_row =
     \<lparr>row_id = 1, titleEncrypted = js ''k'' @ replicate 32 48 @ js ''T'',
      titleIv = replicate 32 48, contentEncrypted = js ''k'' @ replicate 32 49 @ js ''C'',
      contentIv = replicate 32 49, row_createdAt = 1000, row_updatedAt = 1000\<rparr>"

text \<open>
  Two more rows for that table: one whose title ciphertext is damaged, and a copy of
  the saved row that was modified later. \<open>plain_note i\<close> is the note \<open>T\<close>, \<open>C\<close> with the
  id field \<open>i\<close>.
\<close>

definition corrupt_row :: EncryptedNote where
  "corrupt_row = saved_row\<lparr>row_id := 2, titleEncrypted := js ''garbage'', row_updatedAt := 3000\<rparr>"

definition later_row :: EncryptedNote where
  "later_row = saved_row\<lparr>row_id := 3, row_updatedAt := 2000\<rparr>"

definition one_row_database :: database where
  "one_row_database =
     \<lparr>sqlite_up = True, connection = True, notes_table = [saved_row], sqlite_sequence = 1\<rparr>"

definition three_row_database :: database where
  "three_row_database =
     \<lparr>sqlite_up = True, connection = True, notes_table = [saved_row, corrupt_row, later_row],
      sqlite_sequence = 3\<rparr>"

definition plain_note :: "int option \<Rightarrow> Note" where
  "plain_note i =
     \<lparr>note_id = i, title = js ''T'', content = js ''C'', createdAt = None, updatedAt = None\<rparr>"

text \<open>
  What one row contributes to a listing made in the storage state \<open>s\<close>: the note that
  \<open>decryptNote\<close> returns for it, or nothing when \<open>decryptNote\<close> throws.
\<close>

definition decoded :: "revision \<Rightarrow> platform \<Rightarrow> secure_storage \<Rightarrow> EncryptedNote \<Rightarrow> Note list" where
  "decoded rv p s r = (case fst (decryptNote rv p r s) of Inl e \<Rightarrow> [] | Inr n \<Rightarrow> [n])"

section \<open>The key store\<close>

lemmas key_defs = getEncryptionKey_r1_def getEncryptionKey_r2_def getEncryptionKey_r3_def
  Keychain_getGenericPassword_def Keychain_setGenericPassword_def rethrow_def
  Aes_randomKey_def random_hex_def getSalt_def AsyncStorage_getItem_def AsyncStorage_setItem_def

lemmas toy_defs = toy_platform_def toy_aes_def toy_encrypt_def toy_decrypt_def
  fresh_storage_def keyed_storage_def Aes_pbkdf2_def Aes_encrypt_def Aes_decrypt_def
  hexdigit_def js_def

lemma getEncryptionKey_stored:
  "keychain_up s \<Longrightarrow> credentials s = Some k \<Longrightarrow> getEncryptionKey rv p s = (Inr k, s)"
  by (cases rv) (simp_all add: key_defs)

lemma getEncryptionKey_success:
  "getEncryptionKey rv p s = (Inr k, s1) \<Longrightarrow>
     keychain_up s1 \<and> credentials s1 = Some k \<and> asyncstorage_up s1 = asyncstorage_up s"
  by (cases rv)
     (auto simp: key_defs split: if_splits option.splits sum.splits prod.splits)

lemma getEncryptionKey_kept:
  "getEncryptionKey rv p s = (Inr k, s1) \<Longrightarrow> credentials s = Some k0 \<Longrightarrow> k = k0 \<and> s1 = s"
  by (cases rv)
     (auto simp: key_defs split: if_splits option.splits sum.splits prod.splits)

lemma length_random_hex: "length (fst (random_hex p n s)) = 2 * n"
  by (simp add: random_hex_def hex2_def length_concat comp_def sum_list_triv)

lemma random_hex_frame:
  "keychain_up (snd (random_hex p n s)) = keychain_up s \<and>
   credentials (snd (random_hex p n s)) = credentials s \<and>
   asyncstorage_up (snd (random_hex p n s)) = asyncstorage_up s"
  by (simp add: random_hex_def)

lemma aes_total_encrypt:
  assumes "aes_total p"
  shows "\<exists>c. Aes_encrypt p t k iv = Some c"
proof -
  from assms have "Aes_encrypt p t k iv \<noteq> None"
    unfolding aes_total_def by blast
  then show ?thesis by auto
qed

lemma aes_total_pbkdf2:
  assumes "aes_total p"
  shows "\<exists>key. Aes_pbkdf2 p pw salt c l = Some key"
proof -
  from assms have "Aes_pbkdf2 p pw salt c l \<noteq> None"
    unfolding aes_total_def by blast
  then show ?thesis by auto
qed

lemma aes_total_has_pbkdf2: "aes_total p \<Longrightarrow> has_pbkdf2 p"
  using aes_total_pbkdf2 [of p "[]" "[]" 0 0]
  by (auto simp: has_pbkdf2_def Aes_pbkdf2_def split: option.splits)

lemma aes_total_randomKey:
  "aes_total p \<Longrightarrow> \<exists>x. Aes_randomKey p n s = (Some x, s\<lparr>draws := Suc (draws s)\<rparr>) \<and> length x = 2 * n"
  by (auto simp: aes_total_def Aes_randomKey_def)

lemma getSalt_total:
  "asyncstorage_up s \<Longrightarrow>
     \<exists>salt s1. getSalt p s = (Inr salt, s1) \<and> keychain_up s1 = keychain_up s \<and>
        credentials s1 = credentials s \<and> asyncstorage_up s1"
  by (auto simp: getSalt_def rethrow_def AsyncStorage_getItem_def AsyncStorage_setItem_def
        random_hex_def split: prod.splits)

lemma getEncryptionKey_total:
  assumes "aes_total p" "keychain_up s" "asyncstorage_up s"
  shows "\<exists>k s1. getEncryptionKey rv p s = (Inr k, s1)"
proof (cases "credentials s")
  case (Some k)
  with assms getEncryptionKey_stored [of s k rv p] show ?thesis by simp
next
  case None
  show ?thesis
  proof (cases rv)
    case Rev1
    from aes_total_randomKey [OF assms(1), of 32 s] obtain x where
      x: "Aes_randomKey p 32 s = (Some x, s\<lparr>draws := Suc (draws s)\<rparr>)" by blast
    from aes_total_pbkdf2 [OF assms(1)] obtain key where
      "Aes_pbkdf2 p x SALT 10000 32 = Some key" by blast
    with x None assms Rev1 show ?thesis
      by (simp add: getEncryptionKey_r1_def rethrow_def Keychain_getGenericPassword_def
          Keychain_setGenericPassword_def)
  next
    case Rev3
    from aes_total_randomKey [OF assms(1), of 32 s] obtain x where
      x: "Aes_randomKey p 32 s = (Some x, s\<lparr>draws := Suc (draws s)\<rparr>)" by blast
    from aes_total_pbkdf2 [OF assms(1)] obtain key where
      "Aes_pbkdf2 p x SALT 10000 32 = Some key" by blast
    with x None assms Rev3 show ?thesis
      by (simp add: getEncryptionKey_r3_def rethrow_def Keychain_getGenericPassword_def
          Keychain_setGenericPassword_def)
  next
    case Rev2
    from getSalt_total [OF assms(3), of p] obtain salt s1 where
      s: "getSalt p s = (Inr salt, s1)" "keychain_up s1 = keychain_up s" by blast
    obtain rk s2 where r: "random_hex p 32 s1 = (rk, s2)" by (cases "random_hex p 32 s1")
    from random_hex_frame [of p 32 s1] r s assms have u: "keychain_up s2" by simp
    from aes_total_pbkdf2 [OF assms(1)] obtain key where
      "Aes_pbkdf2 p rk salt 10000 32 = Some key" by blast
    with s r u None assms Rev2 aes_total_has_pbkdf2 [OF assms(1)] show ?thesis
      by (simp add: getEncryptionKey_r2_def rethrow_def Keychain_getGenericPassword_def
          Keychain_setGenericPassword_def)
  qed
qed

lemma aes_total_toy: "aes_total toy_platform"
  by (simp add: aes_total_def Aes_randomKey_def toy_defs)

text \<open>
  C6. In every revision and from every state of the secure storage: when a call of
  \<open>getEncryptionKey\<close> returns a key, that key is the stored one afterwards (a key found
  in the keychain is returned as it is and nothing changes; otherwise the generated key
  has been persisted), and the next call returns the same key and leaves the storage as
  it is. A call does return a key when the keychain and AsyncStorage serve requests
  and the native module serves every request. The keychain of the model either serves
  a request or rejects it, and a call that is rejected returns no key.
\<close>

theorem key_persistence:
  "(getEncryptionKey rv p s = (Inr k, s1) \<longrightarrow>
      credentials s1 = Some k \<and>
      (credentials s = None \<or> (credentials s = Some k \<and> s1 = s)) \<and>
      getEncryptionKey rv p s1 = (Inr k, s1)) \<and>
   (aes_total p \<and> keychain_up s \<and> asyncstorage_up s \<longrightarrow>
      (\<exists>k s1. getEncryptionKey rv p s = (Inr k, s1)))"
  using getEncryptionKey_success [of rv p s k s1] getEncryptionKey_stored [of s1 k rv p]
    getEncryptionKey_kept [of rv p s k s1] getEncryptionKey_total [of p s rv]
  by (cases "credentials s") auto

theorem key_persistence_witness:
  "getEncryptionKey Rev1 toy_platform fresh_storage =
     (Inr (replicate 32 48), fresh_storage\<lparr>credentials := Some (replicate 32 48), draws := 1\<rparr>) \<and>
   getEncryptionKey Rev1 toy_platform
       (fresh_storage\<lparr>credentials := Some (replicate 32 48), draws := 1\<rparr>) =
     (Inr (replicate 32 48), fresh_storage\<lparr>credentials := Some (replicate 32 48), draws := 1\<rparr>)"
  using key_persistence [of Rev1 toy_platform fresh_storage "replicate 32 48"
      "fresh_storage\<lparr>credentials := Some (replicate 32 48), draws := 1\<rparr>"]
  by (simp add: key_defs toy_defs)

section \<open>The cipher\<close>

lemma cipher_inverts_toy: "cipher_inverts toy_platform"
  by (simp add: cipher_inverts_def toy_defs)

lemma no_encrypt: "\<not> has_encrypt p \<Longrightarrow> Aes_encrypt p d k iv = None"
  by (auto simp: has_encrypt_def Aes_encrypt_def split: option.splits)

lemma no_decrypt: "\<not> has_decrypt p \<Longrightarrow> Aes_decrypt p d k iv = None"
  by (auto simp: has_decrypt_def Aes_decrypt_def split: option.splits)

lemma aes_total_has_encrypt:
  assumes "aes_total p"
  shows "has_encrypt p"
proof (rule ccontr)
  assume "\<not> has_encrypt p"
  then have "Aes_encrypt p [] [] [] = None" by (rule no_encrypt)
  with aes_total_encrypt [OF assms, of "[]" "[]" "[]"] show False by simp
qed

lemma encrypt_total:
  assumes "aes_total p" "keychain_up s" "asyncstorage_up s"
  shows "\<exists>c iv k s1. encrypt rv p d s = (Inr (c, iv), s1) \<and> keychain_up s1 \<and>
           asyncstorage_up s1 \<and> credentials s1 = Some k \<and>
           Aes_encrypt p d k iv = Some c \<and> length iv = 32 \<and>
           (credentials s = None \<or> credentials s = Some k)"
proof -
  from getEncryptionKey_total [OF assms] obtain k s0 where
    g: "getEncryptionKey rv p s = (Inr k, s0)" by blast
  from getEncryptionKey_success [OF g] assms have
    s0: "keychain_up s0" "credentials s0 = Some k" "asyncstorage_up s0" by simp_all
  from getEncryptionKey_kept [OF g] have kept: "credentials s = None \<or> credentials s = Some k"
    by (cases "credentials s") simp_all
  show ?thesis
  proof (cases rv)
    case Rev2
    obtain iv s1 where r: "random_hex p 16 s0 = (iv, s1)" by (cases "random_hex p 16 s0")
    from random_hex_frame [of p 16 s0] length_random_hex [of p 16 s0] r s0
    have s1: "keychain_up s1" "credentials s1 = Some k" "asyncstorage_up s1" "length iv = 32"
      by simp_all
    from aes_total_encrypt [OF assms(1)] obtain c where
      "Aes_encrypt p d k iv = Some c" by blast
    with g r s1 Rev2 kept aes_total_has_encrypt [OF assms(1)] show ?thesis
      by (simp add: encrypt_r2_def rethrow_def)
  next
    case Rev1
    from aes_total_randomKey [OF assms(1), of 16 s0] obtain iv where
      r: "Aes_randomKey p 16 s0 = (Some iv, s0\<lparr>draws := Suc (draws s0)\<rparr>)" "length iv = 32"
      by auto
    from aes_total_encrypt [OF assms(1)] obtain c where
      "Aes_encrypt p d k iv = Some c" by blast
    with g r s0 Rev1 kept show ?thesis
      by (simp add: encrypt_r1_def rethrow_def)
  next
    case Rev3
    from aes_total_randomKey [OF assms(1), of 16 s0] obtain iv where
      r: "Aes_randomKey p 16 s0 = (Some iv, s0\<lparr>draws := Suc (draws s0)\<rparr>)" "length iv = 32"
      by auto
    from aes_total_encrypt [OF assms(1)] obtain c where
      "Aes_encrypt p d k iv = Some c" by blast
    with g r s0 Rev3 kept show ?thesis
      by (simp add: encrypt_r3_def rethrow_def)
  qed
qed

lemma decrypt_stored:
  assumes "keychain_up s" "credentials s = Some k" "length iv = 32"
    "Aes_decrypt p c k iv = Some d"
  shows "decrypt rv p c iv s = (Inr d, s)"
proof -
  from assms(4) no_decrypt [of p c k iv] have h: "has_decrypt p" by auto
  from assms(3) have iv: "iv \<noteq> []" by auto
  from getEncryptionKey_stored [OF assms(1,2)]
  have "getEncryptionKey_r1 p s = (Inr k, s)" "getEncryptionKey_r2 p s = (Inr k, s)"
    "getEncryptionKey_r3 p s = (Inr k, s)"
    using getEncryptionKey.simps by metis+
  with assms h iv show ?thesis
    by (cases rv) (simp_all add: decrypt_r1_def decrypt_r2_def decrypt_r3_def rethrow_def)
qed

lemma decrypt_r1_stored:
  "keychain_up s \<Longrightarrow> credentials s = Some k \<Longrightarrow>
   decrypt_r1 p c iv s =
     (case Aes_decrypt p c k iv of
        None \<Rightarrow> Inl (Error ''Failed to decrypt data'')
      | Some d \<Rightarrow> Inr d, s)"
  using getEncryptionKey_stored [of s k Rev1 p]
  by (simp add: decrypt_r1_def rethrow_def split: option.splits)

lemma encrypt_r1_result:
  assumes "encrypt_r1 p d s = (Inr (c, iv), s1)"
  shows "\<exists>k. keychain_up s1 \<and> credentials s1 = Some k \<and> Aes_encrypt p d k iv = Some c"
proof -
  obtain r s0 where g: "getEncryptionKey_r1 p s = (r, s0)"
    by (cases "getEncryptionKey_r1 p s")
  from assms g obtain k where r: "r = Inr k"
    by (cases r) (auto simp: encrypt_r1_def rethrow_def)
  from g r have "getEncryptionKey Rev1 p s = (Inr k, s0)" by simp
  from getEncryptionKey_success [OF this]
  have "keychain_up s0" "credentials s0 = Some k" by simp_all
  with assms g r show ?thesis
    by (auto simp: encrypt_r1_def rethrow_def Aes_randomKey_def split: option.splits)
qed

text \<open>
  C1. First revision (the one without a check of the iv), for every string \<open>d\<close> of
  UTF-16 code units: when the native cipher inverts itself and \<open>encrypt d\<close> returns a
  ciphertext and an iv, \<open>decrypt\<close> of that ciphertext and iv returns \<open>d\<close>, in the state
  that \<open>encrypt\<close> leaves and in every state whose keychain serves requests and holds the
  same key. And \<open>encrypt d\<close> does return them when the keychain and the native module
  serve every request.
\<close>

theorem encrypt_decrypt_roundtrip:
  assumes "cipher_inverts p"
  shows "(encrypt_r1 p d s = (Inr (c, iv), s1) \<and> keychain_up s2 \<and>
          credentials s2 = credentials s1 \<longrightarrow>
            decrypt_r1 p c iv s1 = (Inr d, s1) \<and> decrypt_r1 p c iv s2 = (Inr d, s2)) \<and>
         (aes_total p \<and> keychain_up s \<and> asyncstorage_up s \<longrightarrow>
            (\<exists>c iv s1. encrypt_r1 p d s = (Inr (c, iv), s1)))"
proof -
  have "decrypt_r1 p c iv s1 = (Inr d, s1) \<and> decrypt_r1 p c iv s2 = (Inr d, s2)"
    if e: "encrypt_r1 p d s = (Inr (c, iv), s1)"
      and u: "keychain_up s2" and same: "credentials s2 = credentials s1"
  proof -
    from encrypt_r1_result [OF e] obtain k where
      k: "keychain_up s1" "credentials s1 = Some k" "Aes_encrypt p d k iv = Some c" by blast
    from assms k(3) have "Aes_decrypt p c k iv = Some d"
      by (simp add: cipher_inverts_def)
    with k u same show ?thesis
      by (simp add: decrypt_r1_stored)
  qed
  moreover have "\<exists>c iv s1. encrypt_r1 p d s = (Inr (c, iv), s1)"
    if "aes_total p" "keychain_up s" "asyncstorage_up s"
    using encrypt_total [OF that, of Rev1 d] by auto
  ultimately show ?thesis by blast
qed

text \<open>
  For instance the string of a null character and an unpaired surrogate, and the empty
  string.
\<close>

theorem encrypt_decrypt_roundtrip_witness:
  "encrypt_r1 toy_platform [0, 0xD83D] keyed_storage =
     (Inr (js ''k'' @ replicate 32 48 @ [0, 0xD83D], replicate 32 48), keyed_storage\<lparr>draws := 1\<rparr>) \<and>
   decrypt_r1 toy_platform (js ''k'' @ replicate 32 48 @ [0, 0xD83D]) (replicate 32 48)
       (keyed_storage\<lparr>draws := 1\<rparr>) = (Inr [0, 0xD83D], keyed_storage\<lparr>draws := 1\<rparr>) \<and>
   decrypt_r1 toy_platform (js ''k'' @ replicate 32 48) (replicate 32 48) keyed_storage =
     (Inr [], keyed_storage)"
proof -
  have e1: "encrypt_r1 toy_platform [0, 0xD83D] keyed_storage =
      (Inr (js ''k'' @ replicate 32 48 @ [0, 0xD83D], replicate 32 48), keyed_storage\<lparr>draws := 1\<rparr>)"
    by (simp add: encrypt_r1_def key_defs toy_defs)
  have e2: "encrypt_r1 toy_platform [] keyed_storage =
      (Inr (js ''k'' @ replicate 32 48, replicate 32 48), keyed_storage\<lparr>draws := 1\<rparr>)"
    by (simp add: encrypt_r1_def key_defs toy_defs)
  have u: "keychain_up keyed_storage"
    and c: "credentials keyed_storage = credentials (keyed_storage\<lparr>draws := 1\<rparr>)"
    by (simp_all add: toy_defs)
  from encrypt_decrypt_roundtrip [OF cipher_inverts_toy, of "[0, 0xD83D]" keyed_storage
      "js ''k'' @ replicate 32 48 @ [0, 0xD83D]" "replicate 32 48" "keyed_storage\<lparr>draws := 1\<rparr>"
      keyed_storage] e1 u c
  have r1: "decrypt_r1 toy_platform (js ''k'' @ replicate 32 48 @ [0, 0xD83D]) (replicate 32 48)
       (keyed_storage\<lparr>draws := 1\<rparr>) = (Inr [0, 0xD83D], keyed_storage\<lparr>draws := 1\<rparr>)"
    by blast
  from encrypt_decrypt_roundtrip [OF cipher_inverts_toy, of "[]" keyed_storage
      "js ''k'' @ replicate 32 48" "replicate 32 48" "keyed_storage\<lparr>draws := 1\<rparr>"
      keyed_storage] e2 u c
  have r2: "decrypt_r1 toy_platform (js ''k'' @ replicate 32 48) (replicate 32 48) keyed_storage =
     (Inr [], keyed_storage)"
    by blast
  from e1 r1 r2 show ?thesis by blast
qed

lemma decrypt_snd:
  "snd (decrypt rv p c iv s) = snd (getEncryptionKey rv p s)"
  by (cases rv)
     (auto simp: decrypt_r1_def decrypt_r2_def decrypt_r3_def rethrow_def
       split: prod.splits sum.splits option.splits)

lemma decrypt_error:
  "fst (decrypt rv p c iv s) = Inl e \<Longrightarrow> e = Error ''Failed to decrypt data''"
  by (cases rv)
     (auto simp: decrypt_r1_def decrypt_r2_def decrypt_r3_def rethrow_def
       split: prod.splits sum.splits option.splits if_splits)

text \<open>
  C7, as the claim states it, fails on the first revision: its \<open>decrypt\<close> hands the iv
  to the native cipher unchecked, so the empty iv and an iv of two characters both give
  a result when the cipher accepts them.
\<close>

theorem decrypt_r1_no_iv_check:
  "decrypt_r1 toy_platform (js ''kSECRET'') [] keyed_storage =
     (Inr (js ''SECRET''), keyed_storage) \<and>
   decrypt_r1 toy_platform (js ''k00SECRET'') (js ''00'') keyed_storage =
     (Inr (js ''SECRET''), keyed_storage)"
  by (simp add: decrypt_r1_def key_defs toy_defs)

text \<open>
  C7, amended. Second revision, for every platform, ciphertext and state: an iv that is
  empty or whose length is not 32 (16 bytes in hexadecimal) makes \<open>decrypt\<close> fail. The
  key is fetched first (the state is the one key retrieval leaves), the cipher is not
  reached, and the error that leaves is \<open>Error 'Failed to decrypt data'\<close>, the one a
  failure of the cipher also gives; it is not a result, so not the empty string.
\<close>

theorem decrypt_r2_invalid_iv:
  assumes "iv = [] \<or> length iv \<noteq> 32"
  shows "fst (decrypt_r2 p c iv s) = Inl (Error ''Failed to decrypt data'') \<and>
         snd (decrypt_r2 p c iv s) = snd (getEncryptionKey_r2 p s) \<and>
         fst (decrypt_r2 p c iv s) \<noteq> Inr []"
proof -
  from assms have "fst (decrypt_r2 p c iv s) = Inl (Error ''Failed to decrypt data'')"
    by (auto simp: decrypt_r2_def rethrow_def split: prod.splits sum.splits)
  with decrypt_snd [of Rev2 p c iv s] show ?thesis by simp
qed

theorem decrypt_r2_invalid_iv_witness:
  "fst (decrypt_r2 toy_platform (js ''k00SECRET'') (js ''00'') keyed_storage) =
     Inl (Error ''Failed to decrypt data'') \<and>
   fst (decrypt_r2 toy_platform (js ''kSECRET'') [] keyed_storage) =
     Inl (Error ''Failed to decrypt data'')"
  using decrypt_r2_invalid_iv [of "js ''00''" toy_platform "js ''k00SECRET''" keyed_storage]
    decrypt_r2_invalid_iv [of "[]" toy_platform "js ''kSECRET''" keyed_storage]
  by (simp add: js_def)

subsection \<open>The fallback cipher of the second revision\<close>

lemma fail_fast_encrypt:
  "\<not> has_encrypt p \<Longrightarrow>
     fst (encrypt_r1 p d s) = Inl (Error ''Failed to encrypt data'') \<and>
     fst (encrypt_r3 p d s) = Inl (Error ''Failed to encrypt data'')"
  by (auto simp: encrypt_r1_def encrypt_r3_def rethrow_def no_encrypt
       split: prod.splits sum.splits option.splits)

lemma fail_fast_decrypt:
  "\<not> has_decrypt p \<Longrightarrow>
     fst (decrypt_r1 p c iv s) = Inl (Error ''Failed to decrypt data'') \<and>
     fst (decrypt_r3 p c iv s) = Inl (Error ''Failed to decrypt data'')"
  by (auto simp: decrypt_r1_def decrypt_r3_def rethrow_def no_decrypt
       split: prod.splits sum.splits option.splits)

lemma encrypt_r2_branch:
  "getEncryptionKey_r2 p s = (Inr k, s1) \<Longrightarrow>
     fst (encrypt_r2 p d s) =
       (case (if has_encrypt p then Aes_encrypt p d k (fst (random_hex p 16 s1))
              else simpleFallbackEncrypt p d) of
          None \<Rightarrow> Inl (Error ''Failed to encrypt data'')
        | Some e \<Rightarrow> Inr (e, fst (random_hex p 16 s1)))"
  by (auto simp: encrypt_r2_def rethrow_def split: prod.splits sum.splits option.splits)

lemma decrypt_r2_branch:
  "getEncryptionKey_r2 p s = (Inr k, s1) \<Longrightarrow> length iv = 32 \<Longrightarrow>
     fst (decrypt_r2 p c iv s) =
       (if has_decrypt p then
          (case Aes_decrypt p c k iv of
             None \<Rightarrow> Inl (Error ''Failed to decrypt data'')
           | Some d \<Rightarrow> Inr d)
        else Inr (simpleFallbackDecrypt p c))"
  by (auto simp: decrypt_r2_def rethrow_def split: prod.splits sum.splits option.splits)

text \<open>
  C8, as the claim states it, fails on the second revision: on a platform without the
  native AES module, \<open>encrypt\<close> of the string \<open>A\<close> does not fail. It returns \<open>Eg==\<close>, the
  base64 form of \<open>A\<close> XOR \<open>S\<close>, the first character of the fixed key
  \<open>SecureNotesDevKey\<close>.
\<close>

theorem encrypt_r2_falls_back:
  "\<not> has_encrypt bare_platform \<and>
   encrypt_r2 bare_platform (js ''A'') keyed_storage =
     (Inr (js ''Eg=='', fst (random_hex bare_platform 16 keyed_storage)),
      keyed_storage\<lparr>draws := 16\<rparr>)"
  by (simp add: encrypt_r2_def key_defs toy_defs bare_platform_def has_encrypt_def
      simpleFallbackEncrypt_def xor_DevKey_def DevKey_def base64_btoa_def base64_char_def)

text \<open>
  C8, amended. The first and the third revision have no fallback: without the native
  \<open>encrypt\<close> (\<open>decrypt\<close>) their \<open>encrypt\<close> (\<open>decrypt\<close>) fails with
  \<open>Error 'Failed to encrypt data'\<close> (\<open>'Failed to decrypt data'\<close>). In the second
  revision, once the key is retrieved: with the native function present the result is
  the native cipher's, and the fallback is not used; without it \<open>encrypt\<close> returns what
  \<open>simpleFallbackEncrypt\<close> returns (failing only when \<open>btoa\<close> throws), and \<open>decrypt\<close>
  of an iv of length 32 returns what \<open>simpleFallbackDecrypt\<close> returns and never fails.
\<close>

theorem cipher_fallback:
  "(\<not> has_encrypt p \<longrightarrow>
      fst (encrypt_r1 p d s) = Inl (Error ''Failed to encrypt data'') \<and>
      fst (encrypt_r3 p d s) = Inl (Error ''Failed to encrypt data'')) \<and>
   (\<not> has_decrypt p \<longrightarrow>
      fst (decrypt_r1 p c iv s) = Inl (Error ''Failed to decrypt data'') \<and>
      fst (decrypt_r3 p c iv s) = Inl (Error ''Failed to decrypt data'')) \<and>
   (getEncryptionKey_r2 p s = (Inr k, s1) \<longrightarrow>
      fst (encrypt_r2 p d s) =
        (case (if has_encrypt p then Aes_encrypt p d k (fst (random_hex p 16 s1))
               else simpleFallbackEncrypt p d) of
           None \<Rightarrow> Inl (Error ''Failed to encrypt data'')
         | Some e \<Rightarrow> Inr (e, fst (random_hex p 16 s1))) \<and>
      (length iv = 32 \<longrightarrow>
         fst (decrypt_r2 p c iv s) =
           (if has_decrypt p then
              (case Aes_decrypt p c k iv of
                 None \<Rightarrow> Inl (Error ''Failed to decrypt data'')
               | Some x \<Rightarrow> Inr x)
            else Inr (simpleFallbackDecrypt p c))))"
  using fail_fast_encrypt [of p d s] fail_fast_decrypt [of p c iv s]
    encrypt_r2_branch [of p s k s1 d] decrypt_r2_branch [of p s k s1 iv c]
  by blast

theorem cipher_fallback_witness:
  "fst (encrypt_r1 bare_platform (js ''A'') keyed_storage) = Inl (Error ''Failed to encrypt data'') \<and>
   fst (decrypt_r3 bare_platform (js ''Eg=='') (replicate 32 48) keyed_storage) =
     Inl (Error ''Failed to decrypt data'') \<and>
   fst (encrypt_r2 bare_platform (js ''A'') keyed_storage) =
     Inr (js ''Eg=='', fst (random_hex bare_platform 16 keyed_storage)) \<and>
   fst (decrypt_r2 bare_platform (js ''Eg=='') (replicate 32 48) keyed_storage) = Inr (js ''Eg=='')"
proof -
  have h: "\<not> has_encrypt bare_platform" "\<not> has_decrypt bare_platform"
    by (simp_all add: bare_platform_def has_encrypt_def has_decrypt_def)
  have g: "getEncryptionKey_r2 bare_platform keyed_storage = (Inr (js ''k''), keyed_storage)"
    by (simp add: key_defs toy_defs)
  have e: "simpleFallbackEncrypt bare_platform (js ''A'') = Some (js ''Eg=='')"
    by (simp add: toy_defs bare_platform_def simpleFallbackEncrypt_def xor_DevKey_def
        DevKey_def base64_btoa_def base64_char_def)
  have d: "simpleFallbackDecrypt bare_platform (js ''Eg=='') = js ''Eg==''"
    by (simp add: toy_defs bare_platform_def simpleFallbackDecrypt_def)
  from cipher_fallback [of bare_platform "js ''A''" keyed_storage "js ''Eg==''"
      "replicate 32 48" "js ''k''" keyed_storage] h g e d
  show ?thesis by simp
qed

section \<open>The note store\<close>

lemma ensure_init_up: "sqlite_up db \<Longrightarrow> ensure_init db = (Inr (), db\<lparr>connection := True\<rparr>)"
  by (cases db) (auto simp: ensure_init_def init_def createTables_def rethrow_def)

lemma fold_max_ge: "(m::int) \<le> fold max xs m \<and> (\<forall>x\<in>set xs. x \<le> fold max xs m)"
proof (induction xs arbitrary: m)
  case Nil
  show ?case by simp
next
  case (Cons a xs)
  from Cons [of "max a m"] show ?case by auto
qed

lemma next_rowid_fresh: "r \<in> set (notes_table db) \<Longrightarrow> row_id r < next_rowid db"
  using fold_max_ge [of "sqlite_sequence db" "map row_id (notes_table db)"]
  by (auto simp: next_rowid_def)

lemma select_fresh: "filter (\<lambda>r. row_id r = next_rowid db) (notes_table db) = []"
  by (fastforce simp: filter_empty_conv dest: next_rowid_fresh)

lemma decryptNote_stored:
  assumes "keychain_up s" "credentials s = Some k"
    "length (titleIv r) = 32" "length (contentIv r) = 32"
    "Aes_decrypt p (titleEncrypted r) k (titleIv r) = Some t"
    "Aes_decrypt p (contentEncrypted r) k (contentIv r) = Some c"
  shows "decryptNote rv p r s =
    (Inr \<lparr>note_id = Some (row_id r), title = t, content = c,
          createdAt = Some (row_createdAt r), updatedAt = Some (row_updatedAt r)\<rparr>, s)"
  using decrypt_stored [OF assms(1,2,3,5), of rv] decrypt_stored [OF assms(1,2,4,6), of rv]
  by (simp add: decryptNote_def rethrow_def)

text \<open>
  C2. For every title \<open>T\<close> and content \<open>C\<close>, in every revision, on a native module
  that serves every request and inverts its own encryption, with the keychain,
  AsyncStorage and SQLite serving requests: \<open>saveNote\<close> of the note that carries only
  \<open>T\<close> and \<open>C\<close> returns an id that no row of the table had and that is larger than
  every id handed out before, and \<open>getNote\<close> of that id
  then returns the note with that id, \<open>T\<close>, \<open>C\<close>, and \<open>createdAt\<close> and \<open>updatedAt\<close> both
  equal to the timestamp of the insert.
\<close>

theorem save_get_roundtrip:
  assumes "aes_total p" "cipher_inverts p" "keychain_up s" "asyncstorage_up s" "sqlite_up db"
  shows "\<exists>n w1.
    saveNote rv p now
        \<lparr>note_id = None, title = T, content = C, createdAt = None, updatedAt = None\<rparr> (s, db) =
      (Inr n, w1) \<and>
    n \<notin> row_id ` set (notes_table db) \<and> sqlite_sequence db < n \<and>
    getNote rv p n w1 =
      (Inr (Some \<lparr>note_id = Some n, title = T, content = C,
                  createdAt = Some now, updatedAt = Some now\<rparr>), w1)"
proof -
  from encrypt_total [OF assms(1,3,4), of rv T] obtain cT ivT k s1 where
    t: "encrypt rv p T s = (Inr (cT, ivT), s1)" "keychain_up s1" "asyncstorage_up s1"
      "credentials s1 = Some k" "Aes_encrypt p T k ivT = Some cT" "length ivT = 32"
    by blast
  from encrypt_total [OF assms(1) t(2,3), of rv C] t(4) obtain cC ivC s2 where
    c: "encrypt rv p C s1 = (Inr (cC, ivC), s2)" "keychain_up s2"
      "credentials s2 = Some k" "Aes_encrypt p C k ivC = Some cC" "length ivC = 32"
    by auto
  from assms(2) t(5) c(4) have
    d: "Aes_decrypt p cT k ivT = Some T" "Aes_decrypt p cC k ivC = Some C"
    by (simp_all add: cipher_inverts_def)
  define db0 where "db0 = db\<lparr>connection := True\<rparr>"
  define row where "row = \<lparr>row_id = next_rowid db0, titleEncrypted = cT, titleIv = ivT,
     contentEncrypted = cC, contentIv = ivC, row_createdAt = now, row_updatedAt = now\<rparr>"
  define db1 where "db1 = db0\<lparr>notes_table := notes_table db0 @ [row],
     sqlite_sequence := next_rowid db0\<rparr>"
  have up: "sqlite_up db0" "sqlite_up db1" "connection db1"
    using assms(5) by (simp_all add: db0_def db1_def)
  have save: "saveNote rv p now
      \<lparr>note_id = None, title = T, content = C, createdAt = None, updatedAt = None\<rparr> (s, db) =
      (Inr (next_rowid db0), (s2, db1))"
    using t(1) c(1) up(1) ensure_init_up [OF assms(5)]
    by (simp add: saveNote_def truthy_def sql_insert_def Let_def db0_def db1_def row_def)
  have fresh: "next_rowid db0 \<notin> row_id ` set (notes_table db)"
  proof
    assume "next_rowid db0 \<in> row_id ` set (notes_table db)"
    then obtain r where "r \<in> set (notes_table db0)" "row_id r = next_rowid db0"
      by (auto simp: db0_def)
    with next_rowid_fresh [of r db0] show False by simp
  qed
  have sel: "sql_select_by_id (next_rowid db0) db1 = Some [row]"
    using up(2) select_fresh [of db0] by (simp add: sql_select_by_id_def db1_def row_def)
  have dec: "decryptNote rv p row s2 =
      (Inr \<lparr>note_id = Some (next_rowid db0), title = T, content = C,
            createdAt = Some now, updatedAt = Some now\<rparr>, s2)"
    using decryptNote_stored [of s2 k row p T C rv] c(2,3,5) t(6) d
    by (simp add: row_def)
  have get: "getNote rv p (next_rowid db0) (s2, db1) =
      (Inr (Some \<lparr>note_id = Some (next_rowid db0), title = T, content = C,
                  createdAt = Some now, updatedAt = Some now\<rparr>), (s2, db1))"
    using sel dec up(3) by (simp add: getNote_def ensure_init_def)
  have newer: "sqlite_sequence db < next_rowid db0"
    using fold_max_ge [of "sqlite_sequence db" "map row_id (notes_table db)"]
    by (simp add: next_rowid_def db0_def)
  from save fresh newer get show ?thesis by blast
qed

lemma toy_save:
  "saveNote Rev3 toy_platform 1000
       \<lparr>note_id = None, title = js ''T'', content = js ''C'', createdAt = None, updatedAt = None\<rparr>
       (keyed_storage, fresh_database) =
     (Inr 1, (keyed_storage\<lparr>draws := 2\<rparr>,
        fresh_database\<lparr>connection := True, notes_table := [saved_row], sqlite_sequence := 1\<rparr>))"
  by (simp add: saveNote_def ensure_init_def init_def createTables_def
        encrypt_r3_def key_defs toy_defs fresh_database_def truthy_def sql_insert_def
        next_rowid_def saved_row_def numeral_2_eq_2)

theorem save_get_roundtrip_witness:
  "saveNote Rev3 toy_platform 1000
       \<lparr>note_id = None, title = js ''T'', content = js ''C'', createdAt = None, updatedAt = None\<rparr>
       (keyed_storage, fresh_database) =
     (Inr 1, (keyed_storage\<lparr>draws := 2\<rparr>,
        fresh_database\<lparr>connection := True, notes_table := [saved_row], sqlite_sequence := 1\<rparr>)) \<and>
   getNote Rev3 toy_platform 1 (keyed_storage\<lparr>draws := 2\<rparr>,
        fresh_database\<lparr>connection := True, notes_table := [saved_row], sqlite_sequence := 1\<rparr>) =
     (Inr (Some \<lparr>note_id = Some 1, title = js ''T'', content = js ''C'',
                 createdAt = Some 1000, updatedAt = Some 1000\<rparr>),
      (keyed_storage\<lparr>draws := 2\<rparr>,
        fresh_database\<lparr>connection := True, notes_table := [saved_row], sqlite_sequence := 1\<rparr>))"
proof -
  have "keychain_up keyed_storage" "asyncstorage_up keyed_storage" "sqlite_up fresh_database"
    by (simp_all add: toy_defs fresh_database_def)
  from save_get_roundtrip [OF aes_total_toy cipher_inverts_toy this, of Rev3 1000 "js ''T''" "js ''C''"]
  show ?thesis by (simp add: toy_save)
qed

lemmas db_defs = saveNote_def getNote_def getAllNotes_def deleteNote_def decryptNote_def
  ensure_init_def init_def createTables_def truthy_def next_rowid_def
  sql_update_def sql_insert_def sql_select_by_id_def sql_select_all_def sql_delete_def

lemmas row_defs = saved_row_def corrupt_row_def later_row_def one_row_database_def
  three_row_database_def fresh_database_def plain_note_def

lemmas toy_run = db_defs row_defs encrypt_r3_def decrypt_r3_def key_defs toy_defs

lemma toy_decoded:
  "decoded Rev3 toy_platform keyed_storage saved_row =
     [\<lparr>note_id = Some 1, title = js ''T'', content = js ''C'',
       createdAt = Some 1000, updatedAt = Some 1000\<rparr>]"
  "decoded Rev3 toy_platform keyed_storage corrupt_row = []"
  "decoded Rev3 toy_platform keyed_storage later_row =
     [\<lparr>note_id = Some 3, title = js ''T'', content = js ''C'',
       createdAt = Some 1000, updatedAt = Some 2000\<rparr>]"
  by (simp_all add: decoded_def toy_run)

subsection \<open>Listing\<close>

lemma decrypt_stable:
  "keychain_up s \<Longrightarrow> credentials s = Some k \<Longrightarrow> snd (decrypt rv p c iv s) = s"
  using decrypt_snd [of rv p c iv s] getEncryptionKey_stored [of s k rv p] by simp

lemma decryptNote_stable:
  assumes "keychain_up s" "credentials s = Some k"
  shows "snd (decryptNote rv p r s) = s"
proof -
  obtain x s1 where t: "decrypt rv p (titleEncrypted r) (titleIv r) s = (x, s1)"
    by (cases "decrypt rv p (titleEncrypted r) (titleIv r) s")
  with decrypt_stable [OF assms, of rv p "titleEncrypted r" "titleIv r"] have s1: "s1 = s"
    by simp
  obtain y s2 where c: "decrypt rv p (contentEncrypted r) (contentIv r) s = (y, s2)"
    by (cases "decrypt rv p (contentEncrypted r) (contentIv r) s")
  with decrypt_stable [OF assms, of rv p "contentEncrypted r" "contentIv r"] have s2: "s2 = s"
    by simp
  from t c s1 s2 show ?thesis
    by (cases x; cases y) (simp_all add: decryptNote_def rethrow_def)
qed

lemma decryptNote_fields:
  "decryptNote rv p r s = (Inr n, s1) \<Longrightarrow>
     note_id n = Some (row_id r) \<and> createdAt n = Some (row_createdAt r) \<and>
     updatedAt n = Some (row_updatedAt r)"
  by (auto simp: decryptNote_def rethrow_def split: prod.splits sum.splits)

lemma decryptNote_error:
  "fst (decryptNote rv p r s) = Inl e \<Longrightarrow> e = Error ''Failed to decrypt note data''"
  by (auto simp: decryptNote_def rethrow_def split: prod.splits sum.splits)

lemma decrypt_rows_stable:
  assumes "keychain_up s" "credentials s = Some k"
  shows "decrypt_rows rv p rs acc s = (acc @ concat (map (decoded rv p s) rs), s)"
proof (induction rs arbitrary: acc)
  case Nil
  show ?case by simp
next
  case (Cons r rs)
  obtain x s1 where d: "decryptNote rv p r s = (x, s1)" by (cases "decryptNote rv p r s")
  with decryptNote_stable [OF assms, of rv p r] have "s1 = s" by simp
  with d Cons show ?case by (cases x) (simp_all add: decoded_def)
qed

lemma decrypt_rows_sorted:
  assumes "sorted (map (\<lambda>r. - row_updatedAt r) rs)"
    and "sorted_wrt (\<lambda>a b. the (updatedAt b) \<le> the (updatedAt a)) acc"
    and "\<forall>a\<in>set acc. \<forall>r\<in>set rs. row_updatedAt r \<le> the (updatedAt a)"
    and "decrypt_rows rv p rs acc s = (ns, s1)"
  shows "sorted_wrt (\<lambda>a b. the (updatedAt b) \<le> the (updatedAt a)) ns"
  using assms
proof (induction rs arbitrary: acc s)
  case Nil
  then show ?case by simp
next
  case (Cons r rs)
  obtain x s0 where d: "decryptNote rv p r s = (x, s0)" by (cases "decryptNote rv p r s")
  show ?case
  proof (cases x)
    case (Inl e)
    with d Cons.prems have "decrypt_rows rv p rs acc s0 = (ns, s1)" by simp
    with Cons.IH [of acc s0] Cons.prems(1,2,3) show ?thesis by simp
  next
    case (Inr n)
    from decryptNote_fields [of rv p r s n s0] d Inr
    have u: "updatedAt n = Some (row_updatedAt r)" by simp
    from d Inr Cons.prems have run: "decrypt_rows rv p rs (acc @ [n]) s0 = (ns, s1)" by simp
    from Cons.prems(2,3) u
    have a: "sorted_wrt (\<lambda>a b. the (updatedAt b) \<le> the (updatedAt a)) (acc @ [n])"
      by (simp add: sorted_wrt_append)
    from Cons.prems(1,3) u
    have b: "\<forall>a\<in>set (acc @ [n]). \<forall>r\<in>set rs. row_updatedAt r \<le> the (updatedAt a)"
      by auto
    from Cons.prems(1) have "sorted (map (\<lambda>r. - row_updatedAt r) rs)" by simp
    from Cons.IH [OF this a b run] show ?thesis .
  qed
qed

lemma getAllNotes_sorted:
  assumes "sqlite_up db"
  shows "\<exists>ns w. getAllNotes rv p (s, db) = (Inr ns, w) \<and>
           sorted_wrt (\<lambda>a b. the (updatedAt b) \<le> the (updatedAt a)) ns"
proof -
  obtain ns s1 where r: "decrypt_rows rv p
      (sort_key (\<lambda>r. - row_updatedAt r) (notes_table db)) [] s = (ns, s1)"
    by (cases "decrypt_rows rv p (sort_key (\<lambda>r. - row_updatedAt r) (notes_table db)) [] s")
  have "sorted_wrt (\<lambda>a b. the (updatedAt b) \<le> the (updatedAt a)) ns"
    by (rule decrypt_rows_sorted [OF _ _ _ r]) simp_all
  with r assms ensure_init_up [OF assms] show ?thesis
    by (simp add: getAllNotes_def sql_select_all_def)
qed

lemma decoded_updatedAt:
  "n \<in> set (decoded rv p s r) \<Longrightarrow> updatedAt n = Some (row_updatedAt r)"
  using decryptNote_fields [of rv p r s n "snd (decryptNote rv p r s)"]
  by (cases "decryptNote rv p r s") (auto simp: decoded_def split: sum.splits)

lemma decoded_sorted:
  "sorted (map (\<lambda>r. - row_updatedAt r) rs) \<Longrightarrow>
     sorted_wrt (\<lambda>a b. the (updatedAt b) \<le> the (updatedAt a)) (concat (map (decoded rv p s) rs))"
proof (induction rs)
  case Nil
  show ?case by simp
next
  case (Cons r rs)
  have one: "sorted_wrt (\<lambda>a b. the (updatedAt b) \<le> the (updatedAt a)) (decoded rv p s r)"
    by (simp add: decoded_def split: sum.splits)
  have "the (updatedAt b) \<le> the (updatedAt a)"
    if "a \<in> set (decoded rv p s r)" "r' \<in> set rs" "b \<in> set (decoded rv p s r')" for a b r'
    using that Cons.prems decoded_updatedAt [of a rv p s r] decoded_updatedAt [of b rv p s r']
    by auto
  with one Cons show ?case by (auto simp: sorted_wrt_append)
qed

text \<open>
  C3. For every state of the table and of the secure storage, with SQLite serving
  requests: \<open>getAllNotes\<close> returns a list, never failing because a row does not
  decrypt, and the notes of the list are in descending order of \<open>updatedAt\<close>. When the
  keychain holds a key, so that whether a row decrypts depends on the row alone, the
  list is made of the rows taken by \<open>updatedAt\<close> descending (rows of equal \<open>updatedAt\<close>
  in table order), each row that \<open>decryptNote\<close> decrypts giving its note and each row
  on which \<open>decryptNote\<close> throws giving nothing, and the storage is left as it was.
\<close>

theorem getAllNotes_listing:
  assumes "sqlite_up db"
  shows "(\<exists>ns w. getAllNotes rv p (s, db) = (Inr ns, w) \<and>
             sorted_wrt (\<lambda>a b. the (updatedAt b) \<le> the (updatedAt a)) ns) \<and>
    (keychain_up s \<and> credentials s = Some k \<longrightarrow>
       getAllNotes rv p (s, db) =
         (Inr (concat (map (decoded rv p s) (sort_key (\<lambda>r. - row_updatedAt r) (notes_table db)))),
          (s, db\<lparr>connection := True\<rparr>)) \<and>
       sorted_wrt (\<lambda>a b. the (updatedAt b) \<le> the (updatedAt a))
         (concat (map (decoded rv p s) (sort_key (\<lambda>r. - row_updatedAt r) (notes_table db)))))"
proof -
  have a: "\<exists>ns w. getAllNotes rv p (s, db) = (Inr ns, w) \<and>
             sorted_wrt (\<lambda>a b. the (updatedAt b) \<le> the (updatedAt a)) ns"
    by (rule getAllNotes_sorted [OF assms])
  have b: "getAllNotes rv p (s, db) =
         (Inr (concat (map (decoded rv p s) (sort_key (\<lambda>r. - row_updatedAt r) (notes_table db)))),
          (s, db\<lparr>connection := True\<rparr>))" if "keychain_up s" "credentials s = Some k"
    using assms ensure_init_up [OF assms] decrypt_rows_stable [OF that, of rv p _ "[]"]
    by (simp add: getAllNotes_def sql_select_all_def)
  have c: "sorted_wrt (\<lambda>a b. the (updatedAt b) \<le> the (updatedAt a))
         (concat (map (decoded rv p s) (sort_key (\<lambda>r. - row_updatedAt r) (notes_table db))))"
    by (rule decoded_sorted) simp
  from a b c show ?thesis by blast
qed

theorem getAllNotes_listing_witness:
  "getAllNotes Rev3 toy_platform (keyed_storage, three_row_database) =
     (Inr [\<lparr>note_id = Some 3, title = js ''T'', content = js ''C'',
             createdAt = Some 1000, updatedAt = Some 2000\<rparr>,
           \<lparr>note_id = Some 1, title = js ''T'', content = js ''C'',
             createdAt = Some 1000, updatedAt = Some 1000\<rparr>],
      (keyed_storage, three_row_database))"
proof -
  have h: "sqlite_up three_row_database" "keychain_up keyed_storage"
    "credentials keyed_storage = Some (js ''k'')"
    by (simp_all add: row_defs toy_defs)
  have srt: "sort_key (\<lambda>r. - row_updatedAt r) (notes_table three_row_database) =
      [corrupt_row, later_row, saved_row]"
    by (simp add: row_defs)
  have c: "three_row_database\<lparr>connection := True\<rparr> = three_row_database"
    by (simp add: row_defs)
  from getAllNotes_listing [OF h(1), of Rev3 toy_platform keyed_storage "js ''k''"] h(2,3)
  show ?thesis by (simp add: srt c toy_decoded)
qed

subsection \<open>Fetching one note\<close>

lemma decryptNote_fails:
  assumes "fst (decrypt rv p (titleEncrypted r) (titleIv r) s) = Inl e \<or>
           fst (decrypt rv p (contentEncrypted r) (contentIv r)
                  (snd (decrypt rv p (titleEncrypted r) (titleIv r) s))) = Inl e"
  shows "fst (decryptNote rv p r s) = Inl (Error ''Failed to decrypt note data'')"
  using assms
  by (auto simp: decryptNote_def rethrow_def split: prod.splits sum.splits)

text \<open>
  C4. With SQLite serving requests, for every id: when no row has the id, \<open>getNote\<close>
  returns the absent result \<open>None\<close>, not an error; when the first row with the id has a
  title or a content whose decryption throws, \<open>getNote\<close> fails with
  \<open>Error 'Failed to decrypt note data'\<close> and returns no note.
\<close>

theorem getNote_absent_or_fails:
  assumes "sqlite_up db"
  shows "(i \<notin> row_id ` set (notes_table db) \<longrightarrow>
            getNote rv p i (s, db) = (Inr None, (s, db\<lparr>connection := True\<rparr>))) \<and>
         (filter (\<lambda>r. row_id r = i) (notes_table db) = r # rest \<and>
          (fst (decrypt rv p (titleEncrypted r) (titleIv r) s) = Inl e \<or>
           fst (decrypt rv p (contentEncrypted r) (contentIv r)
                  (snd (decrypt rv p (titleEncrypted r) (titleIv r) s))) = Inl e) \<longrightarrow>
            fst (getNote rv p i (s, db)) = Inl (Error ''Failed to decrypt note data''))"
proof -
  have a: "getNote rv p i (s, db) = (Inr None, (s, db\<lparr>connection := True\<rparr>))"
    if "i \<notin> row_id ` set (notes_table db)"
  proof -
    from that have "filter (\<lambda>r. row_id r = i) (notes_table db) = []"
      by (auto simp: filter_empty_conv)
    with assms ensure_init_up [OF assms] show ?thesis
      by (simp add: getNote_def sql_select_by_id_def)
  qed
  have b: "fst (getNote rv p i (s, db)) = Inl (Error ''Failed to decrypt note data'')"
    if "filter (\<lambda>r. row_id r = i) (notes_table db) = r # rest"
      "fst (decrypt rv p (titleEncrypted r) (titleIv r) s) = Inl e \<or>
           fst (decrypt rv p (contentEncrypted r) (contentIv r)
                  (snd (decrypt rv p (titleEncrypted r) (titleIv r) s))) = Inl e"
    using assms ensure_init_up [OF assms] that(1) decryptNote_fails [OF that(2)]
    by (auto simp: getNote_def sql_select_by_id_def split: prod.splits sum.splits)
  from a b show ?thesis by blast
qed

theorem getNote_absent_or_fails_witness:
  "getNote Rev3 toy_platform 7 (keyed_storage, three_row_database) =
     (Inr None, (keyed_storage, three_row_database)) \<and>
   fst (getNote Rev3 toy_platform 2 (keyed_storage, three_row_database)) =
     Inl (Error ''Failed to decrypt note data'')"
proof -
  have h: "sqlite_up three_row_database" by (simp add: row_defs)
  have c: "three_row_database\<lparr>connection := True\<rparr> = three_row_database"
    by (simp add: row_defs)
  have a: "7 \<notin> row_id ` set (notes_table three_row_database)" by (simp add: row_defs)
  have b: "filter (\<lambda>r. row_id r = 2) (notes_table three_row_database) = corrupt_row # []"
    by (simp add: row_defs)
  have d: "fst (decrypt Rev3 toy_platform (titleEncrypted corrupt_row) (titleIv corrupt_row)
      keyed_storage) = Inl (Error ''Failed to decrypt data'')"
    by (simp add: toy_run)
  from getNote_absent_or_fails [OF h, of 7 Rev3 toy_platform keyed_storage]
    getNote_absent_or_fails [OF h, of 2 Rev3 toy_platform keyed_storage corrupt_row "[]"
      "Error ''Failed to decrypt data''"] a b c d
  show ?thesis by simp
qed

subsection \<open>Saving a note that carries an id\<close>

lemma ensure_init_ok: "ensure_init db = (Inr u, db0) \<Longrightarrow> db0 = db\<lparr>connection := True\<rparr>"
  by (cases db) (auto simp: ensure_init_def init_def createTables_def rethrow_def split: if_splits)

lemma saveNote_update_result:
  assumes "note_id note = Some i" "i \<noteq> 0"
    and "saveNote rv p now note (s, db) = (Inr n, (s1, db1))"
  shows "n = i \<and>
    (\<exists>tE tIv cE cIv s0. encrypt rv p (title note) s = (Inr (tE, tIv), s0) \<and>
        encrypt rv p (content note) s0 = (Inr (cE, cIv), s1) \<and>
        db1 = db\<lparr>connection := True, notes_table :=
            map (\<lambda>r. if row_id r = i
                      then r\<lparr>titleEncrypted := tE, titleIv := tIv, contentEncrypted := cE,
                             contentIv := cIv, row_updatedAt := now\<rparr>
                      else r) (notes_table db)\<rparr>)"
proof -
  obtain u db0 where i0: "ensure_init db = (Inr u, db0)"
    using assms(3) by (cases "ensure_init db") (auto simp: saveNote_def split: sum.splits)
  from ensure_init_ok [OF i0] have db0: "db0 = db\<lparr>connection := True\<rparr>" .
  obtain tE tIv s0 where t: "encrypt rv p (title note) s = (Inr (tE, tIv), s0)"
    using assms(3) i0
    by (cases "encrypt rv p (title note) s")
       (auto simp: saveNote_def split: sum.splits)
  obtain cE cIv s2 where c: "encrypt rv p (content note) s0 = (Inr (cE, cIv), s2)"
    using assms(3) i0 t
    by (cases "encrypt rv p (content note) s0")
       (auto simp: saveNote_def split: sum.splits)
  from assms i0 t c db0 show ?thesis
    by (auto simp: saveNote_def truthy_def sql_update_def split: if_splits)
qed

text \<open>
  C5, as the claim states it, fails twice on the table that holds the one row
  \<open>saved_row\<close> (id 1, \<open>updatedAt\<close> 1000). A note whose id is present and is \<open>0\<close> is
  inserted as a new row, and the new id 2 is returned. And the update of note 1 at the
  clock reading 1000, the reading of the previous write, leaves \<open>updatedAt\<close> at 1000.
\<close>

theorem saveNote_not_always_update:
  "fst (saveNote Rev3 toy_platform 2000 (plain_note (Some 0)) (keyed_storage, one_row_database)) =
     Inr 2 \<and>
   map row_id (notes_table (snd (snd
       (saveNote Rev3 toy_platform 2000 (plain_note (Some 0)) (keyed_storage, one_row_database))))) =
     [1, 2] \<and>
   map row_updatedAt (notes_table one_row_database) = [1000] \<and>
   map row_updatedAt (notes_table (snd (snd
       (saveNote Rev3 toy_platform 1000 (plain_note (Some 1)) (keyed_storage, one_row_database))))) =
     [1000]"
  by (simp add: toy_run)

text \<open>
  C5, amended. For every note whose id is present and not \<open>0\<close>: when \<open>saveNote\<close>
  returns, it returns that id; the table has the same rows in the same order with the
  same ids and the same \<open>createdAt\<close>, and no id was handed out; the rows with that id
  carry the two new ciphertexts and ivs, all other rows are as before; and \<open>updatedAt\<close>
  of a row with that id is the clock reading of the call, so it is greater than the
  previous value whenever that reading is.
\<close>

theorem saveNote_update:
  assumes "note_id note = Some i" "i \<noteq> 0"
    and "saveNote rv p now note (s, db) = (Inr n, (s1, db1))"
  shows "n = i \<and>
    map row_id (notes_table db1) = map row_id (notes_table db) \<and>
    map row_createdAt (notes_table db1) = map row_createdAt (notes_table db) \<and>
    sqlite_sequence db1 = sqlite_sequence db \<and>
    (\<exists>tE tIv cE cIv s0. encrypt rv p (title note) s = (Inr (tE, tIv), s0) \<and>
        encrypt rv p (content note) s0 = (Inr (cE, cIv), s1) \<and>
        notes_table db1 =
          map (\<lambda>r. if row_id r = i
                    then r\<lparr>titleEncrypted := tE, titleIv := tIv, contentEncrypted := cE,
                           contentIv := cIv, row_updatedAt := now\<rparr>
                    else r) (notes_table db)) \<and>
    (\<forall>j < length (notes_table db). row_id (notes_table db ! j) = i \<longrightarrow>
        row_updatedAt (notes_table db1 ! j) = now \<and>
        (row_updatedAt (notes_table db ! j) < now \<longrightarrow>
           row_updatedAt (notes_table db ! j) < row_updatedAt (notes_table db1 ! j)))"
proof -
  from saveNote_update_result [OF assms] obtain tE tIv cE cIv s0 where
    r: "n = i" "encrypt rv p (title note) s = (Inr (tE, tIv), s0)"
      "encrypt rv p (content note) s0 = (Inr (cE, cIv), s1)"
      "db1 = db\<lparr>connection := True, notes_table :=
            map (\<lambda>r. if row_id r = i
                      then r\<lparr>titleEncrypted := tE, titleIv := tIv, contentEncrypted := cE,
                             contentIv := cIv, row_updatedAt := now\<rparr>
                      else r) (notes_table db)\<rparr>"
    by blast
  have ids: "map row_id (notes_table db1) = map row_id (notes_table db)"
    by (simp add: r(4) comp_def if_distrib cong: if_cong)
  have cre: "map row_createdAt (notes_table db1) = map row_createdAt (notes_table db)"
    by (simp add: r(4) comp_def if_distrib cong: if_cong)
  have sq: "sqlite_sequence db1 = sqlite_sequence db" by (simp add: r(4))
  have tab: "notes_table db1 =
          map (\<lambda>r. if row_id r = i
                    then r\<lparr>titleEncrypted := tE, titleIv := tIv, contentEncrypted := cE,
                           contentIv := cIv, row_updatedAt := now\<rparr>
                    else r) (notes_table db)" by (simp add: r(4))
  have upd: "\<forall>j < length (notes_table db). row_id (notes_table db ! j) = i \<longrightarrow>
        row_updatedAt (notes_table db1 ! j) = now \<and>
        (row_updatedAt (notes_table db ! j) < now \<longrightarrow>
           row_updatedAt (notes_table db ! j) < row_updatedAt (notes_table db1 ! j))"
    by (simp add: tab)
  from r(1,2,3) ids cre sq tab upd show ?thesis by blast
qed

theorem saveNote_update_witness:
  "fst (saveNote Rev3 toy_platform 2000 (plain_note (Some 1)) (keyed_storage, one_row_database)) =
     Inr 1 \<and>
   map row_id (notes_table (snd (snd
       (saveNote Rev3 toy_platform 2000 (plain_note (Some 1)) (keyed_storage, one_row_database))))) =
     [1] \<and>
   map row_createdAt (notes_table (snd (snd
       (saveNote Rev3 toy_platform 2000 (plain_note (Some 1)) (keyed_storage, one_row_database))))) =
     [1000] \<and>
   map row_updatedAt (notes_table (snd (snd
       (saveNote Rev3 toy_platform 2000 (plain_note (Some 1)) (keyed_storage, one_row_database))))) =
     [2000]"
proof -
  have f: "fst (saveNote Rev3 toy_platform 2000 (plain_note (Some 1))
      (keyed_storage, one_row_database)) = Inr 1"
    by (simp add: toy_run)
  then have e: "saveNote Rev3 toy_platform 2000 (plain_note (Some 1)) (keyed_storage, one_row_database) =
      (Inr 1, (fst (snd (saveNote Rev3 toy_platform 2000 (plain_note (Some 1))
                 (keyed_storage, one_row_database))),
               snd (snd (saveNote Rev3 toy_platform 2000 (plain_note (Some 1))
                 (keyed_storage, one_row_database)))))"
    by (metis prod.collapse)
  have h: "note_id (plain_note (Some 1)) = Some 1" "(1::int) \<noteq> 0"
    by (simp_all add: plain_note_def)
  have o: "notes_table one_row_database = [saved_row]" "row_id saved_row = 1"
    "row_createdAt saved_row = 1000"
    by (simp_all add: row_defs)
  from saveNote_update [OF h e] f o show ?thesis by (auto simp: nth_Cons')
qed

text \<open>
  C10, as the claim states it, fails for the id \<open>0\<close>: on the empty table, \<open>saveNote\<close> of
  a note carrying the id \<open>0\<close> creates a row, returns its id 1, and \<open>getNote 0\<close> is absent.
\<close>

theorem saveNote_zero_id_inserts:
  "saveNote Rev3 toy_platform 1000 (plain_note (Some 0)) (keyed_storage, fresh_database) =
     (Inr 1, (keyed_storage\<lparr>draws := 2\<rparr>,
        fresh_database\<lparr>connection := True, notes_table := [saved_row], sqlite_sequence := 1\<rparr>)) \<and>
   getNote Rev3 toy_platform 0 (keyed_storage\<lparr>draws := 2\<rparr>,
        fresh_database\<lparr>connection := True, notes_table := [saved_row], sqlite_sequence := 1\<rparr>) =
     (Inr None, (keyed_storage\<lparr>draws := 2\<rparr>,
        fresh_database\<lparr>connection := True, notes_table := [saved_row], sqlite_sequence := 1\<rparr>))"
  by (simp add: toy_run numeral_2_eq_2)

lemma toy_encrypts:
  "encrypt Rev3 toy_platform (js ''T'') keyed_storage =
     (Inr (js ''k'' @ replicate 32 48 @ js ''T'', replicate 32 48), keyed_storage\<lparr>draws := 1\<rparr>)"
  "encrypt Rev3 toy_platform (js ''C'') (keyed_storage\<lparr>draws := 1\<rparr>) =
     (Inr (js ''k'' @ replicate 32 49 @ js ''C'', replicate 32 49), keyed_storage\<lparr>draws := 2\<rparr>)"
  by (simp_all add: toy_run numeral_2_eq_2)

text \<open>
  C10, amended. For every note carrying an id other than \<open>0\<close> that no row of the table
  has, with SQLite serving requests and both encryptions succeeding: \<open>saveNote\<close>
  returns that id, the table is as before (only the connection is open), and \<open>getNote\<close>
  of that id then returns the absent result.
\<close>

theorem saveNote_missing_row:
  assumes "sqlite_up db" "note_id note = Some i" "i \<noteq> 0"
    "i \<notin> row_id ` set (notes_table db)"
    "encrypt rv p (title note) s = (Inr e1, s1)"
    "encrypt rv p (content note) s1 = (Inr e2, s2)"
  shows "saveNote rv p now note (s, db) = (Inr i, (s2, db\<lparr>connection := True\<rparr>)) \<and>
         getNote rv p i (s2, db\<lparr>connection := True\<rparr>) = (Inr None, (s2, db\<lparr>connection := True\<rparr>))"
proof -
  from assms(4) have same: "map (\<lambda>r. if row_id r = i then f r else r) (notes_table db) = notes_table db" for f
    by (intro map_idI) auto
  from assms(4) have none: "filter (\<lambda>r. row_id r = i) (notes_table db) = []"
    by (auto simp: filter_empty_conv)
  have "saveNote rv p now note (s, db) = (Inr i, (s2, db\<lparr>connection := True\<rparr>))"
    using assms(1,2,3,5,6) ensure_init_up [OF assms(1)] same
    by (cases e1; cases e2) (simp add: saveNote_def truthy_def sql_update_def)
  moreover have "getNote rv p i (s2, db\<lparr>connection := True\<rparr>) = (Inr None, (s2, db\<lparr>connection := True\<rparr>))"
    using assms(1) none by (simp add: getNote_def ensure_init_def sql_select_by_id_def)
  ultimately show ?thesis by simp
qed

theorem saveNote_missing_row_witness:
  "saveNote Rev3 toy_platform 2000 (plain_note (Some 5)) (keyed_storage, one_row_database) =
     (Inr 5, (keyed_storage\<lparr>draws := 2\<rparr>, one_row_database)) \<and>
   getNote Rev3 toy_platform 5 (keyed_storage\<lparr>draws := 2\<rparr>, one_row_database) =
     (Inr None, (keyed_storage\<lparr>draws := 2\<rparr>, one_row_database))"
proof -
  have h: "sqlite_up one_row_database" "note_id (plain_note (Some 5)) = Some 5" "(5::int) \<noteq> 0"
    "5 \<notin> row_id ` set (notes_table one_row_database)"
    by (simp_all add: row_defs)
  have c: "one_row_database\<lparr>connection := True\<rparr> = one_row_database"
    by (simp add: row_defs)
  have t: "title (plain_note (Some 5)) = js ''T''" "content (plain_note (Some 5)) = js ''C''"
    by (simp_all add: plain_note_def)
  from saveNote_missing_row [OF h, of Rev3 toy_platform keyed_storage _ "keyed_storage\<lparr>draws := 1\<rparr>"
      _ "keyed_storage\<lparr>draws := 2\<rparr>" 2000] toy_encrypts c t
  show ?thesis by simp
qed

section \<open>The presenter\<close>














end
